theory Spec2Isabelle
  imports Complex_Main "HOL-Library.Char_ord" "HOL-Library.List_Lexorder" "HOL-Library.Multiset"
    "HOL-Library.Word"
begin

section \<open>The argument map of \<^verbatim>\<open>pdns/arguments.cc\<close>\<close>

text \<open>
  A shallow embedding of \<^verbatim>\<open>ArgvMap\<close>: the registry of parameters, the parser of one
  argument, the file loader with its include directory, the typed accessors and the
  configuration dump. A \<^verbatim>\<open>std::string\<close> is a \<^typ>\<open>string\<close> (a list of bytes), a
  \<^verbatim>\<open>std::map<string, string>\<close> is an association list kept in key order, an
  \<^verbatim>\<open>ArgException\<close> is the left summand of a result.
\<close>

subsection \<open>Strings\<close>

definition squote :: char where
  "squote = CHR 0x27"

definition backslash :: char where
  "backslash = CHR 0x5C"

definition NUL :: char where
  "NUL = CHR 0x00"

text \<open>\<^verbatim>\<open>std::isspace\<close> in the classic locale: space, \<^verbatim>\<open>\t \n \v \f \r\<close>.\<close>

definition isspace :: "char \<Rightarrow> bool" where
  "isspace c = (c = CHR '' '' \<or> c = CHR 0x09 \<or> c = CHR 0x0A \<or> c = CHR 0x0B \<or> c = CHR 0x0C \<or> c = CHR 0x0D)"

text \<open>\<^verbatim>\<open>boost::trim_right\<close> and \<^verbatim>\<open>boost::trim\<close>.\<close>

definition trim_right :: "string \<Rightarrow> string" where
  "trim_right s = rev (dropWhile isspace (rev s))"

definition trim :: "string \<Rightarrow> string" where
  "trim s = trim_right (dropWhile isspace s)"

text \<open>
  \<^verbatim>\<open>std::string::find\<close> of a substring: the least position at which the needle starts,
  \<open>None\<close> for \<^verbatim>\<open>npos\<close>.
\<close>

fun find_str :: "string \<Rightarrow> string \<Rightarrow> nat option" where
  "find_str needle [] = (if needle = [] then Some 0 else None)"
| "find_str needle (c # cs) =
     (if take (length needle) (c # cs) = needle then Some 0
      else map_option Suc (find_str needle cs))"

definition find_chr :: "char \<Rightarrow> string \<Rightarrow> nat option" where
  "find_chr c s = find_str [c] s"

text \<open>\<^verbatim>\<open>s.find(p) == 0\<close>.\<close>

definition starts_with :: "string \<Rightarrow> string \<Rightarrow> bool" where
  "starts_with p s = (find_str p s = Some 0)"

text \<open>\<^verbatim>\<open>std::string::find_first_not_of\<close>.\<close>

fun find_first_not_of :: "string \<Rightarrow> string \<Rightarrow> nat option" where
  "find_first_not_of ds [] = None"
| "find_first_not_of ds (c # cs) =
     (if c \<in> set ds then map_option Suc (find_first_not_of ds cs) else Some 0)"

text \<open>\<^verbatim>\<open>s.substr(pos, n)\<close> and \<^verbatim>\<open>s.substr(pos)\<close>, for \<open>pos \<le> length s\<close> (every call of the source).\<close>

definition substr :: "string \<Rightarrow> nat \<Rightarrow> nat \<Rightarrow> string" where
  "substr s pos n = take n (drop pos s)"

definition substr_from :: "string \<Rightarrow> nat \<Rightarrow> string" where
  "substr_from s pos = drop pos s"

text \<open>
  Modelled from the spec: \<^verbatim>\<open>stringtok\<close> of \<^verbatim>\<open>misc.hh\<close>, which splits a string into the
  non-empty tokens between delimiter characters. \<open>cur\<close> is the token being read.
\<close>

fun stringtok_from :: "string \<Rightarrow> string \<Rightarrow> string \<Rightarrow> string list" where
  "stringtok_from ds cur [] = (if cur = [] then [] else [cur])"
| "stringtok_from ds cur (c # cs) =
     (if c \<in> set ds then (if cur = [] then stringtok_from ds [] cs else cur # stringtok_from ds [] cs)
      else stringtok_from ds (cur @ [c]) cs)"

definition stringtok :: "string \<Rightarrow> string \<Rightarrow> string list" where
  "stringtok s ds = stringtok_from ds [] s"

subsection \<open>Maps in key order\<close>

text \<open>
  A \<^verbatim>\<open>std::map<string, string>\<close>: pairs in ascending key order (bytes compared
  unsigned, as \<^verbatim>\<open>std::string\<close> does). \<open>m_assign\<close> is \<^verbatim>\<open>m[k] = v\<close>, \<open>m_index\<close> is
  a read of \<^verbatim>\<open>m[k]\<close>, which inserts the empty string under a missing key.
\<close>

type_synonym smap = "(string \<times> string) list"

definition m_find :: "smap \<Rightarrow> string \<Rightarrow> string option" where
  "m_find m k = map_of m k"

definition m_count :: "smap \<Rightarrow> string \<Rightarrow> nat" where
  "m_count m k = (case map_of m k of None \<Rightarrow> 0 | Some _ \<Rightarrow> 1)"

fun m_assign :: "string \<Rightarrow> string \<Rightarrow> smap \<Rightarrow> smap" where
  "m_assign k v [] = [(k, v)]"
| "m_assign k v ((k', v') # m) =
     (if k = k' then (k, v) # m
      else if k < k' then (k, v) # (k', v') # m
      else (k', v') # m_assign k v m)"

definition m_index :: "smap \<Rightarrow> string \<Rightarrow> string \<times> smap" where
  "m_index m k = (case map_of m k of Some v \<Rightarrow> (v, m) | None \<Rightarrow> ([], m_assign k [] m))"

text \<open>\<^verbatim>\<open>m.insert(pair(k, v))\<close>: no effect when the key is present.\<close>

definition m_insert :: "string \<Rightarrow> string \<Rightarrow> smap \<Rightarrow> smap" where
  "m_insert k v m = (case map_of m k of Some _ \<Rightarrow> m | None \<Rightarrow> m_assign k v m)"

subsection \<open>The registry\<close>

datatype error = ArgException string

datatype log_event = LogWarning string | LogError string

record ArgvMap =
  d_params :: smap
  d_unknownParams :: smap
  helpmap :: smap
  defaultmap :: smap
  d_typeMap :: smap
  d_cmds :: "string list"
  d_cleared :: "string set"
  d_log :: "log_event list"

text \<open>The messages of the exceptions, named after the conditions of the specification.\<close>

definition NotFound :: "string \<Rightarrow> error" where
  "NotFound arg = ArgException (''Undefined but needed argument: '' @ [squote] @ arg @ [squote])"

definition IncrementalWithoutParent :: "string \<Rightarrow> error" where
  "IncrementalWithoutParent var =
     ArgException (''Incremental setting '' @ [squote] @ var @ [squote] @ '' without a parent'')"

definition UnknownSetting :: "string \<Rightarrow> error" where
  "UnknownSetting var = ArgException (''Trying to set unknown setting '' @ [squote] @ var @ [squote])"

definition MalformedValue :: "string \<Rightarrow> string \<Rightarrow> error" where
  "MalformedValue arg shown =
     ArgException ([squote] @ arg @ [squote] @ '' value '' @ [squote] @ shown @ [squote]
       @ '' is not a valid number'')"

definition MissingDefault :: "string \<Rightarrow> error" where
  "MissingDefault var = ArgException (''Default for setting '' @ [squote] @ var @ [squote] @ '' not set'')"

definition parmIsset :: "ArgvMap \<Rightarrow> string \<Rightarrow> bool" where
  "parmIsset st var = (m_find (d_params st) var \<noteq> None)"

text \<open>\<^verbatim>\<open>set(var)\<close> returns the slot \<^verbatim>\<open>d_params[var]\<close>, created empty when missing.\<close>

definition set_slot :: "string \<Rightarrow> ArgvMap \<Rightarrow> ArgvMap" where
  "set_slot var st = st\<lparr>d_params := snd (m_index (d_params st) var)\<rparr>"

text \<open>\<^verbatim>\<open>set(var, help)\<close>, \<^verbatim>\<open>setSwitch(var, help)\<close> and \<^verbatim>\<open>setCmd(var, help)\<close>.\<close>

definition set_help :: "string \<Rightarrow> string \<Rightarrow> ArgvMap \<Rightarrow> ArgvMap" where
  "set_help var help st =
     set_slot var (st\<lparr>helpmap := m_assign var help (helpmap st),
                      d_typeMap := m_assign var ''Parameter'' (d_typeMap st)\<rparr>)"

definition setSwitch :: "string \<Rightarrow> string \<Rightarrow> ArgvMap \<Rightarrow> ArgvMap" where
  "setSwitch var help st =
     set_slot var (st\<lparr>helpmap := m_assign var help (helpmap st),
                      d_typeMap := m_assign var ''Switch'' (d_typeMap st)\<rparr>)"

definition setCmd :: "string \<Rightarrow> string \<Rightarrow> ArgvMap \<Rightarrow> ArgvMap" where
  "setCmd var help st =
     (let st1 = st\<lparr>helpmap := m_assign var help (helpmap st),
                   d_typeMap := m_assign var ''Command'' (d_typeMap st)\<rparr>
      in st1\<lparr>d_params := m_assign var ''no'' (d_params st1)\<rparr>)"

text \<open>Writing through the slot a declaration returns: \<^verbatim>\<open>set(var, help) = value\<close>.\<close>

definition set_value :: "string \<Rightarrow> string \<Rightarrow> ArgvMap \<Rightarrow> ArgvMap" where
  "set_value var v st = st\<lparr>d_params := m_assign var v (d_params st)\<rparr>"

definition setDefault :: "string \<Rightarrow> string \<Rightarrow> ArgvMap \<Rightarrow> ArgvMap" where
  "setDefault var v st =
     (if m_count (defaultmap st) var = 0 then st\<lparr>defaultmap := m_insert var v (defaultmap st)\<rparr> else st)"

definition setDefaults :: "ArgvMap \<Rightarrow> ArgvMap" where
  "setDefaults st =
     st\<lparr>defaultmap := foldl (\<lambda>dm p. if m_count dm (fst p) = 0 then m_insert (fst p) (snd p) dm else dm)
                           (defaultmap st) (d_params st)\<rparr>"

text \<open>The constructor declares \<^verbatim>\<open>ignore-unknown-settings\<close> with the empty value.\<close>

definition ius :: string where
  "ius = ''ignore-unknown-settings''"

definition ArgvMap_new :: ArgvMap where
  "ArgvMap_new =
     set_value ius [] (set_help ius ''Configuration settings to ignore if they are unknown''
       \<lparr>d_params = [], d_unknownParams = [], helpmap = [], defaultmap = [], d_typeMap = [],
        d_cmds = [], d_cleared = {}, d_log = []\<rparr>)"

subsection \<open>Deprecated names\<close>

definition deprecateList :: smap where
  "deprecateList =
     [(''edns-subnet-whitelist'', ''edns-subnet-allow-list''),
      (''new-domain-whitelist'', ''new-domain-ignore-list''),
      (''snmp-master-socket'', ''snmp-daemon-socket''),
      (''stats-api-blacklist'', ''stats-api-disabled-list''),
      (''stats-carbon-blacklist'', ''stats-carbon-disabled-list''),
      (''stats-rec-control-blacklist'', ''stats-rec-control-disabled-list''),
      (''stats-snmp-blacklist'', ''stats-snmp-disabled-list''),
      (''xpf-allow-from'', ''Proxy Protocol''),
      (''xpf-rr-code'', ''Proxy Protocol'')]"

definition warnIfDeprecated :: "string \<Rightarrow> ArgvMap \<Rightarrow> ArgvMap" where
  "warnIfDeprecated var st =
     (case m_find deprecateList var of
        Some alt \<Rightarrow>
          st\<lparr>d_log := d_log st @
            [LogWarning ([squote] @ var @ [squote]
               @ '' is deprecated and will be removed in a future release, use ''
               @ [squote] @ alt @ [squote] @ '' instead'')]\<rparr>
      | None \<Rightarrow> st)"

definition isDeprecated :: "string \<Rightarrow> string" where
  "isDeprecated var = (case m_find deprecateList var of Some alt \<Rightarrow> alt | None \<Rightarrow> [])"

subsection \<open>The parser of one argument\<close>

text \<open>
  The first part of \<^verbatim>\<open>parseOne\<close>: the four forms of an argument, in the order of the
  source. The result is the name before trimming, the value, whether the assignment is
  incremental, and whether the argument is a command.
\<close>

definition split_arg :: "string \<Rightarrow> string \<times> string \<times> bool \<times> bool" where
  "split_arg arg =
     (if starts_with ''--'' arg \<and> find_str ''+='' arg \<noteq> None then
        (let pos = the (find_str ''+='' arg)
         in (substr arg 2 (pos - 2), substr_from arg (pos + 2), True, False))
      else if starts_with ''--'' arg \<and> find_chr CHR ''='' arg \<noteq> None then
        (let pos = the (find_chr CHR ''='' arg)
         in (substr arg 2 (pos - 2), substr_from arg (pos + 1), False, False))
      else if starts_with ''--'' arg \<and> find_chr CHR ''='' arg = None then
        (substr_from arg 2, [], False, False)
      else if take 1 arg = ''-'' \<and> length arg > 1 then
        (substr_from arg 1, [], False, False)
      else ([], [], False, True))"

text \<open>Stripping the leading blanks and tabs of the value.\<close>

definition strip_leading :: "string \<Rightarrow> string" where
  "strip_leading val =
     (case find_first_not_of [CHR '' '', CHR 0x09] val of
        Some pos \<Rightarrow> if pos \<noteq> 0 then substr_from val pos else val
      | None \<Rightarrow> val)"

definition ignore_delims :: string where
  "ignore_delims = [CHR '' '', CHR '','', CHR 0x09, CHR 0x0A, CHR 0x0D]"

definition parseOne :: "string \<Rightarrow> string \<Rightarrow> bool \<Rightarrow> ArgvMap \<Rightarrow> error + ArgvMap" where
  "parseOne arg parseOnly lax st =
     (case split_arg arg of (var0, val0, incremental, is_cmd) \<Rightarrow>
       let st1 = (if is_cmd then st\<lparr>d_cmds := d_cmds st @ [arg]\<rparr> else st);
           var = trim var0
       in if var \<noteq> [] \<and> (parseOnly = [] \<or> var = parseOnly) then
            (let st2 = (if \<not> lax then warnIfDeprecated var st1 else st1);
                 val = strip_leading val0
             in if parmIsset st2 var then
                  (if incremental then
                     (if the (m_find (d_params st2) var) = [] then
                        (if var \<notin> d_cleared st2 then Inl (IncrementalWithoutParent var)
                         else Inr (st2\<lparr>d_params := m_assign var val (d_params st2)\<rparr>))
                      else Inr (st2\<lparr>d_params :=
                             m_assign var (the (m_find (d_params st2) var) @ '', '' @ val) (d_params st2)\<rparr>))
                   else Inr (st2\<lparr>d_params := m_assign var val (d_params st2),
                                  d_cleared := insert var (d_cleared st2)\<rparr>))
                else
                  (case m_index (d_params st2) ius of (ignored, params') \<Rightarrow>
                     let st3 = st2\<lparr>d_params := params'\<rparr>
                     in if var \<in> set (stringtok ignored ignore_delims) then
                          Inr (st3\<lparr>d_unknownParams := m_assign var val (d_unknownParams st3),
                                  d_log := d_log st3 @
                                    [LogWarning (''Ignoring unknown setting '' @ [squote] @ var
                                       @ [squote] @ '' as requested'')]\<rparr>)
                        else if \<not> lax then Inl (UnknownSetting var)
                        else Inr st3))
          else Inr st1)"

text \<open>The loop of \<^verbatim>\<open>parse\<close> over \<^verbatim>\<open>argv[1..]\<close>; an exception ends it.\<close>

fun parse_args :: "string list \<Rightarrow> bool \<Rightarrow> ArgvMap \<Rightarrow> error + ArgvMap" where
  "parse_args [] lax st = Inr st"
| "parse_args (a # as) lax st =
     (case parseOne a [] lax st of Inl e \<Rightarrow> Inl e | Inr st' \<Rightarrow> parse_args as lax st')"

text \<open>\<^verbatim>\<open>parse(argc, argv, lax)\<close>; \<open>argv\<close> holds \<^verbatim>\<open>argv[0]\<close> first.\<close>

definition parse :: "string list \<Rightarrow> bool \<Rightarrow> ArgvMap \<Rightarrow> error + ArgvMap" where
  "parse argv lax st = parse_args (drop 1 argv) lax (st\<lparr>d_cmds := [], d_cleared := {}\<rparr>)"

text \<open>
  \<^verbatim>\<open>preParse(argc, argv, arg)\<close> calls \<^verbatim>\<open>parseOne(argv[i])\<close> with one argument. The
  declaration of \<^verbatim>\<open>parseOne\<close> is in \<^verbatim>\<open>arguments.hh\<close>.

  Modelled from the spec: the default arguments of \<^verbatim>\<open>parseOne\<close> in the missing header,
  no filter (the empty name) and no lax mode.
\<close>

definition parseOne_default_parseOnly :: string where
  "parseOne_default_parseOnly = []"

definition parseOne_default_lax :: bool where
  "parseOne_default_lax = False"

fun preParse_args :: "string list \<Rightarrow> string \<Rightarrow> ArgvMap \<Rightarrow> error + ArgvMap" where
  "preParse_args [] arg st = Inr st"
| "preParse_args (varval # rest) arg st =
     (if starts_with (''--'' @ arg) varval then
        (case parseOne varval parseOne_default_parseOnly parseOne_default_lax st of
           Inl e \<Rightarrow> Inl e
         | Inr st' \<Rightarrow> preParse_args rest arg st')
      else preParse_args rest arg st)"

definition preParse :: "string list \<Rightarrow> string \<Rightarrow> ArgvMap \<Rightarrow> error + ArgvMap" where
  "preParse argv arg st = preParse_args (drop 1 argv) arg st"

subsection \<open>The file system\<close>

text \<open>
  What the loader reads: the contents of the files that can be opened, and the entries of
  the directories that can be opened, in the order \<^verbatim>\<open>readdir\<close> returns them. An entry
  carries the outcome of \<^verbatim>\<open>stat\<close> on its path: whether the call succeeded on a regular file.
  A directory that cannot be opened gives the text of the error.
\<close>

record dirent =
  d_name :: string
  st_regular :: bool

record filesys =
  fs_files :: "string \<Rightarrow> string option"
  fs_dirs :: "string \<Rightarrow> string + dirent list"

text \<open>\<^verbatim>\<open>c_str()\<close>: the bytes before the first NUL.\<close>

definition c_str :: "string \<Rightarrow> string" where
  "c_str s = takeWhile (\<lambda>c. c \<noteq> NUL) s"

text \<open>The lines successive calls of \<^verbatim>\<open>getline\<close> return.\<close>

fun getlines_from :: "string \<Rightarrow> string \<Rightarrow> string list" where
  "getlines_from cur [] = (if cur = [] then [] else [cur])"
| "getlines_from cur (c # cs) =
     (if c = CHR 0x0A then cur # getlines_from [] cs else getlines_from (cur @ [c]) cs)"

definition getlines :: "string \<Rightarrow> string list" where
  "getlines content = getlines_from [] content"

subsection \<open>The file loader\<close>

definition strip_comment :: "string \<Rightarrow> string" where
  "strip_comment line =
     (case find_chr CHR ''#'' line of
        Some pos \<Rightarrow> if pos = 0 \<or> isspace (line ! (pos - 1)) then substr line 0 pos else line
      | None \<Rightarrow> line)"

definition strip_leading_spaces :: "string \<Rightarrow> string" where
  "strip_leading_spaces line =
     (case find_first_not_of [CHR '' '', CHR 0x09, CHR 0x0D, CHR 0x0A] line of
        Some pos \<Rightarrow> substr_from line pos
      | None \<Rightarrow> line)"

text \<open>
  The loop of \<^verbatim>\<open>parseFile\<close> over the physical lines; \<open>line\<close> is the logical line
  collected so far.
\<close>

fun parseFile_lines :: "string list \<Rightarrow> string \<Rightarrow> string \<Rightarrow> bool \<Rightarrow> ArgvMap \<Rightarrow> error + ArgvMap" where
  "parseFile_lines [] line arg lax st = Inr st"
| "parseFile_lines (pline0 # rest) line arg lax st =
     (let pline = trim_right pline0
      in if pline \<noteq> [] \<and> last pline = backslash then
           parseFile_lines rest (line @ substr pline 0 (length pline - 1)) arg lax st
         else
           (let line1 = line @ pline;
                line2 = strip_comment line1;
                line3 = trim_right line2;
                line4 = strip_leading_spaces line3
            in case parseOne (''--'' @ line4) arg lax st of
                 Inl e \<Rightarrow> Inl e
               | Inr st' \<Rightarrow> parseFile_lines rest [] arg lax st'))"

definition parseFile :: "filesys \<Rightarrow> string \<Rightarrow> string \<Rightarrow> bool \<Rightarrow> ArgvMap \<Rightarrow> error + bool \<times> ArgvMap" where
  "parseFile fs fname arg lax st =
     (case fs_files fs fname of
        None \<Rightarrow> Inr (False, st)
      | Some content \<Rightarrow>
          (case parseFile_lines (getlines content) [] arg lax st of
             Inl e \<Rightarrow> Inl e
           | Inr st' \<Rightarrow> Inr (True, st')))"

definition preParseFile :: "filesys \<Rightarrow> string \<Rightarrow> string \<Rightarrow> string \<Rightarrow> ArgvMap \<Rightarrow> error + bool \<times> ArgvMap" where
  "preParseFile fs fname arg theDefault st =
     parseFile fs fname arg False (st\<lparr>d_params := m_assign arg theDefault (d_params st)\<rparr>)"

subsection \<open>The include directory\<close>

text \<open>\<^verbatim>\<open>boost::ends_with\<close>: the comparison of the bytes, case-sensitive.\<close>

definition ends_with :: "string \<Rightarrow> string \<Rightarrow> bool" where
  "ends_with s suffix = (length suffix \<le> length s \<and> drop (length s - length suffix) s = suffix)"

text \<open>
  Modelled from the spec: \<^verbatim>\<open>CIStringComparePOSIX\<close> of \<^verbatim>\<open>misc.hh\<close>, the comparison of two
  strings byte by byte after an ASCII case fold, a proper prefix being smaller.
\<close>

definition tolower :: "char \<Rightarrow> char" where
  "tolower c =
     (case map_of (zip ''ABCDEFGHIJKLMNOPQRSTUVWXYZ'' ''abcdefghijklmnopqrstuvwxyz'') c of
        Some l \<Rightarrow> l
      | None \<Rightarrow> c)"

fun CIStringComparePOSIX :: "string \<Rightarrow> string \<Rightarrow> bool" where
  "CIStringComparePOSIX [] rhs = (rhs \<noteq> [])"
| "CIStringComparePOSIX (l # lhs) [] = False"
| "CIStringComparePOSIX (l # lhs) (r # rhs) =
     (if tolower r < tolower l then False
      else if tolower l < tolower r then True
      else CIStringComparePOSIX lhs rhs)"

text \<open>
  \<^verbatim>\<open>std::sort\<close> with a comparator, as an insertion sort. The standard leaves the order of
  equivalent elements open; this one keeps it.
\<close>

fun sort_insert :: "('a \<Rightarrow> 'a \<Rightarrow> bool) \<Rightarrow> 'a \<Rightarrow> 'a list \<Rightarrow> 'a list" where
  "sort_insert lt x [] = [x]"
| "sort_insert lt x (y # ys) = (if lt x y then x # y # ys else y # sort_insert lt x ys)"

definition std_sort :: "('a \<Rightarrow> 'a \<Rightarrow> bool) \<Rightarrow> 'a list \<Rightarrow> 'a list" where
  "std_sort lt xs = foldl (\<lambda>acc x. sort_insert lt x acc) [] xs"

text \<open>The \<^verbatim>\<open>readdir\<close> loop of \<^verbatim>\<open>gatherIncludes\<close>; \<open>vec\<close> collects the paths.\<close>

fun gather_entries :: "string \<Rightarrow> string \<Rightarrow> dirent list \<Rightarrow> string list \<Rightarrow> error + string list" where
  "gather_entries directory suffix [] vec = Inr vec"
| "gather_entries directory suffix (ent # rest) vec =
     (if take 1 (d_name ent) = ''.'' then gather_entries directory suffix rest vec
      else if ends_with (d_name ent) suffix then
        (let name = directory @ ''/'' @ d_name ent
         in if \<not> st_regular ent then Inl (ArgException (name @ '' is not a regular file''))
            else gather_entries directory suffix rest (vec @ [name]))
      else gather_entries directory suffix rest vec)"

definition gatherIncludes :: "filesys \<Rightarrow> string \<Rightarrow> string \<Rightarrow> string list \<Rightarrow> error + string list" where
  "gatherIncludes fs directory suffix extraConfigs =
     (if directory = [] then Inr extraConfigs
      else case fs_dirs fs (c_str directory) of
             Inl err \<Rightarrow> Inl (ArgException (directory @ '' is not accessible: '' @ err))
           | Inr ents \<Rightarrow>
               (case gather_entries directory suffix ents [] of
                  Inl e \<Rightarrow> Inl e
                | Inr vec \<Rightarrow> Inr (extraConfigs @ std_sort CIStringComparePOSIX vec)))"

definition include_dir :: string where
  "include_dir = ''include-dir''"

text \<open>
  \<^verbatim>\<open>file(fname, lax, included)\<close> up to the include step, which is all of it for an
  included file.
\<close>

definition file_one :: "filesys \<Rightarrow> string \<Rightarrow> bool \<Rightarrow> ArgvMap \<Rightarrow> error + bool \<times> ArgvMap" where
  "file_one fs fname lax st =
     (let st1 = (if \<not> parmIsset st include_dir
                 then set_help include_dir ''Directory to include configuration files from'' st
                 else st)
      in case parseFile fs fname [] lax st1 of
           Inl e \<Rightarrow> Inl e
         | Inr (opened, st2) \<Rightarrow>
             if \<not> opened then Inr (False, st2\<lparr>d_log := d_log st2 @ [LogWarning (''Unable to open '' @ fname)]\<rparr>)
             else Inr (True, st2))"

fun file_includes :: "filesys \<Rightarrow> bool \<Rightarrow> string list \<Rightarrow> ArgvMap \<Rightarrow> error + ArgvMap" where
  "file_includes fs lax [] st = Inr st"
| "file_includes fs lax (filename # rest) st =
     (case file_one fs (c_str filename) lax st of
        Inl e \<Rightarrow> Inl e
      | Inr (ok, st') \<Rightarrow>
          if \<not> ok then Inl (ArgException (filename @ '' could not be parsed''))
          else file_includes fs lax rest st')"

text \<open>\<^verbatim>\<open>file(fname, lax, included)\<close>; the name \<open>file\<close> is taken in Isabelle.\<close>

definition file' :: "filesys \<Rightarrow> string \<Rightarrow> bool \<Rightarrow> bool \<Rightarrow> ArgvMap \<Rightarrow> error + bool \<times> ArgvMap" where
  "file' fs fname lax included st =
     (case file_one fs fname lax st of
        Inl e \<Rightarrow> Inl e
      | Inr (ok, st2) \<Rightarrow>
          if \<not> ok then Inr (False, st2)
          else if included then Inr (True, st2)
          else
            (case m_index (d_params st2) include_dir of (dir, params') \<Rightarrow>
               let st3 = st2\<lparr>d_params := params'\<rparr>
               in if dir \<noteq> [] then
                    (case gatherIncludes fs dir ''.conf'' [] of
                       Inl e \<Rightarrow> Inl e
                     | Inr extraConfigs \<Rightarrow>
                         (case file_includes fs lax extraConfigs st3 of
                            Inl e \<Rightarrow> Inl e
                          | Inr st4 \<Rightarrow> Inr (True, st4)))
                  else Inr (True, st3)))"

subsection \<open>Typed accessors\<close>

text \<open>\<^verbatim>\<open>operator[]\<close>, \<^verbatim>\<open>mustDo\<close> and \<^verbatim>\<open>isEmpty\<close>.\<close>

definition index_op :: "ArgvMap \<Rightarrow> string \<Rightarrow> error + string" where
  "index_op st arg =
     (if \<not> parmIsset st arg then Inl (NotFound arg)
      else Inr (the (m_find (d_params st) arg)))"

definition mustDo :: "ArgvMap \<Rightarrow> string \<Rightarrow> error + bool" where
  "mustDo st var =
     (case index_op st var of
        Inl e \<Rightarrow> Inl e
      | Inr v \<Rightarrow>
          if v \<noteq> ''no'' then (case index_op st var of Inl e \<Rightarrow> Inl e | Inr w \<Rightarrow> Inr (w \<noteq> ''off''))
          else Inr False)"

definition isEmpty :: "ArgvMap \<Rightarrow> string \<Rightarrow> bool" where
  "isEmpty st arg =
     (if \<not> parmIsset st arg then True
      else the (m_find (d_params st) arg) = [])"

text \<open>
  \<^verbatim>\<open>strtol\<close> of the C library, for a 64-bit \<^verbatim>\<open>long\<close>: white space, a sign, the prefix of
  the base, the digits; the value saturates at the bounds of \<^verbatim>\<open>long\<close>. The result is the
  value and the number of characters consumed, 0 when no conversion is made.
\<close>

definition digit_val :: "char \<Rightarrow> nat option" where
  "digit_val c =
     (let n = (of_char c :: nat)
      in if 48 \<le> n \<and> n \<le> 57 then Some (n - 48)
         else if 97 \<le> n \<and> n \<le> 122 then Some (n - 87)
         else if 65 \<le> n \<and> n \<le> 90 then Some (n - 55)
         else None)"

definition is_digit :: "nat \<Rightarrow> char \<Rightarrow> bool" where
  "is_digit b c = (case digit_val c of Some d \<Rightarrow> d < b | None \<Rightarrow> False)"

definition LONG_MAX :: int where
  "LONG_MAX = 2 ^ 63 - 1"

definition LONG_MIN :: int where
  "LONG_MIN = - (2 ^ 63)"

definition strtol :: "string \<Rightarrow> nat \<Rightarrow> int \<times> nat" where
  "strtol s base =
     (let ws = length (takeWhile isspace s);
          s1 = drop ws s;
          neg = (take 1 s1 = ''-'');
          signlen = (if take 1 s1 = ''-'' \<or> take 1 s1 = ''+'' then 1 else 0);
          s2 = drop signlen s1;
          hex = ((base = 0 \<or> base = 16) \<and> (take 2 s2 = ''0x'' \<or> take 2 s2 = ''0X'')
                  \<and> (case drop 2 s2 of [] \<Rightarrow> False | c # _ \<Rightarrow> is_digit 16 c));
          b = (if base = 0 then (if hex then 16 else if take 1 s2 = ''0'' then 8 else 10) else base);
          s3 = (if hex then drop 2 s2 else s2);
          ds = takeWhile (is_digit b) s3
      in if ds = [] then (0, 0)
         else
           (let mag = foldl (\<lambda>a c. a * int b + int (the (digit_val c))) 0 ds;
                v = (if neg then max LONG_MIN (- mag) else min LONG_MAX mag)
            in (v, ws + signlen + (if hex then 2 else 0) + length ds)))"

text \<open>\<^verbatim>\<open>static_cast<int>\<close> and the casts to the unsigned 32-bit \<^verbatim>\<open>mode_t\<close>, \<^verbatim>\<open>gid_t\<close>, \<^verbatim>\<open>uid_t\<close>.\<close>

definition to_int :: "int \<Rightarrow> int" where
  "to_int v = sint (word_of_int v :: 32 word)"

definition to_u32 :: "int \<Rightarrow> nat" where
  "to_u32 v = unat (word_of_int v :: 32 word)"

definition asNum :: "ArgvMap \<Rightarrow> string \<Rightarrow> int \<Rightarrow> error + int" where
  "asNum st arg def =
     (if \<not> parmIsset st arg then Inl (NotFound arg)
      else if the (m_find (d_params st) arg) = [] then Inr def
      else
        (let cptr_orig = c_str (the (m_find (d_params st) arg));
             (v, consumed) = strtol cptr_orig 0;
             retval = to_int v
         in if retval = 0 \<and> consumed = 0 then Inl (MalformedValue arg cptr_orig)
            else Inr retval))"

definition asMode :: "ArgvMap \<Rightarrow> string \<Rightarrow> error + nat" where
  "asMode st arg =
     (if \<not> parmIsset st arg then Inl (NotFound arg)
      else
        (let cptr_orig = c_str (the (m_find (d_params st) arg));
             (v, consumed) = strtol cptr_orig 8;
             mode = to_u32 v
         in if mode = 0 \<and> consumed = 0
            then Inl (ArgException ([squote] @ arg @ [squote] @ '' contains invalid octal mode''))
            else Inr mode))"

text \<open>
  \<^verbatim>\<open>asGid\<close> and \<^verbatim>\<open>asUid\<close> fall back on \<^verbatim>\<open>getgrnam\<close> and \<^verbatim>\<open>getpwnam\<close>, the lookups of
  the operating system, which are parameters here. Both messages say "group" in the source.
\<close>

definition asGid :: "(string \<Rightarrow> nat option) \<Rightarrow> ArgvMap \<Rightarrow> string \<Rightarrow> error + nat" where
  "asGid getgrnam st arg =
     (if \<not> parmIsset st arg then Inl (NotFound arg)
      else
        (let cptr_orig = c_str (the (m_find (d_params st) arg));
             (v, consumed) = strtol cptr_orig 0;
             gid = to_u32 v
         in if gid = 0 \<and> consumed = 0 then
              (case getgrnam cptr_orig of
                 None \<Rightarrow> Inl (ArgException ([squote] @ arg @ [squote] @ '' contains invalid group''))
               | Some g \<Rightarrow> Inr g)
            else Inr gid))"

definition asUid :: "(string \<Rightarrow> nat option) \<Rightarrow> ArgvMap \<Rightarrow> string \<Rightarrow> error + nat" where
  "asUid getpwnam st arg =
     (if \<not> parmIsset st arg then Inl (NotFound arg)
      else
        (let cptr_orig = c_str (the (m_find (d_params st) arg));
             (v, consumed) = strtol cptr_orig 0;
             uid = to_u32 v
         in if uid = 0 \<and> consumed = 0 then
              (case getpwnam cptr_orig of
                 None \<Rightarrow> Inl (ArgException ([squote] @ arg @ [squote] @ '' contains invalid group''))
               | Some u \<Rightarrow> Inr u)
            else Inr uid))"

text \<open>
  \<^verbatim>\<open>asDouble\<close>; \<^verbatim>\<open>strtod\<close> is a parameter that returns the value and the number of
  characters consumed.
\<close>

definition asDouble :: "(string \<Rightarrow> real \<times> nat) \<Rightarrow> ArgvMap \<Rightarrow> string \<Rightarrow> error + real" where
  "asDouble strtod st arg =
     (if \<not> parmIsset st arg then Inl (NotFound arg)
      else if the (m_find (d_params st) arg) = [] then Inr 0
      else
        (let cptr_orig = c_str (the (m_find (d_params st) arg));
             (retval, consumed) = strtod cptr_orig
         in if retval = 0 \<and> consumed = 0
            then Inl (ArgException ([squote] @ arg @ [squote] @ '' is not valid double''))
            else Inr retval))"

subsection \<open>The configuration dump\<close>

definition formatOne :: "bool \<Rightarrow> bool \<Rightarrow> string \<Rightarrow> string \<Rightarrow> string \<Rightarrow> string \<Rightarrow> string" where
  "formatOne running full var help theDefault current =
     (let out1 = (if \<not> running \<or> full
                  then ''#################################'' @ [CHR 0x0A] @ ''# '' @ var @ [CHR 0x09]
                       @ help @ [CHR 0x0A] @ ''#'' @ [CHR 0x0A]
                  else [])
      in if \<not> (\<not> running \<or> full) \<and> theDefault = current then []
         else
           (let out2 = out1 @ (if \<not> running \<or> theDefault = current then ''# '' else [])
            in if running then out2 @ var @ ''='' @ current @ [CHR 0x0A] @ (if full then [CHR 0x0A] else [])
               else out2 @ var @ ''='' @ theDefault @ [CHR 0x0A, CHR 0x0A]))"

text \<open>
  The loop of \<^verbatim>\<open>configstring\<close> over \<^verbatim>\<open>helpmap\<close>. The reads \<^verbatim>\<open>d_typeMap[k]\<close>,
  \<^verbatim>\<open>defaultmap[k]\<close> and \<^verbatim>\<open>d_params[k]\<close> insert missing keys.
\<close>

fun configstring_items :: "bool \<Rightarrow> bool \<Rightarrow> smap \<Rightarrow> ArgvMap \<Rightarrow> string \<Rightarrow> error + string \<times> ArgvMap" where
  "configstring_items running full [] st help = Inr (help, st)"
| "configstring_items running full (helpitem # rest) st help =
     (case m_index (d_typeMap st) (fst helpitem) of (ty, tm) \<Rightarrow>
        let st1 = st\<lparr>d_typeMap := tm\<rparr>
        in if ty = ''Command'' then configstring_items running full rest st1 help
           else if fst helpitem = ius then configstring_items running full rest st1 help
           else if m_count (defaultmap st1) (fst helpitem) = 0 then Inl (MissingDefault (fst helpitem))
           else
             (case m_index (defaultmap st1) (fst helpitem) of (theDefault, dm) \<Rightarrow>
              case m_index (d_params st1) (fst helpitem) of (current, pm) \<Rightarrow>
                configstring_items running full rest (st1\<lparr>defaultmap := dm, d_params := pm\<rparr>)
                  (help @ formatOne running full (fst helpitem) (snd helpitem) theDefault current)))"

definition configstring_unknown :: "bool \<Rightarrow> bool \<Rightarrow> smap \<Rightarrow> string" where
  "configstring_unknown running full unknowns =
     concat (map (\<lambda>unknown. formatOne running full (fst unknown) ''unknown setting'' [] (snd unknown)) unknowns)"

text \<open>\<^verbatim>\<open>configstring(running, full)\<close>; \<open>now\<close> is the text \<^verbatim>\<open>nowTime()\<close> returns.\<close>

definition configstring :: "string \<Rightarrow> bool \<Rightarrow> bool \<Rightarrow> ArgvMap \<Rightarrow> error + string \<times> ArgvMap" where
  "configstring now running full st =
     (let help0 = (if running
                   then ''# Autogenerated configuration file based on running instance ('' @ now @ '')''
                        @ [CHR 0x0A, CHR 0x0A]
                   else ''# Autogenerated configuration file template'' @ [CHR 0x0A, CHR 0x0A])
      in case m_index (helpmap st) ius of (h, hm) \<Rightarrow>
         case m_index (defaultmap st) ius of (d, dm) \<Rightarrow>
         case m_index (d_params st) ius of (c, pm) \<Rightarrow>
           (let st1 = st\<lparr>helpmap := hm, defaultmap := dm, d_params := pm\<rparr>;
                help1 = help0 @ formatOne running full ius h d c
            in case configstring_items running full (helpmap st1) st1 help1 of
                 Inl e \<Rightarrow> Inl e
               | Inr (help2, st2) \<Rightarrow>
                   if running then Inr (help2 @ configstring_unknown running full (d_unknownParams st2), st2)
                   else Inr (help2, st2)))"

subsection \<open>Names and states used in the properties\<close>

text \<open>
  A name that the forms \<^verbatim>\<open>--name=value\<close> and \<^verbatim>\<open>--name+=value\<close> can express: not empty, no
  \<^verbatim>\<open>=\<close>, no \<^verbatim>\<open>+\<close> at the end, no white space at either end.
\<close>

definition flag_name :: "string \<Rightarrow> bool" where
  "flag_name x = (x \<noteq> [] \<and> CHR ''='' \<notin> set x \<and> last x \<noteq> CHR ''+''
     \<and> \<not> isspace (hd x) \<and> \<not> isspace (last x))"

text \<open>The state after the deprecation warning of \<^verbatim>\<open>parseOne\<close>, which lax mode skips.\<close>

definition warned :: "bool \<Rightarrow> string \<Rightarrow> ArgvMap \<Rightarrow> ArgvMap" where
  "warned lax var st = (if \<not> lax then warnIfDeprecated var st else st)"

text \<open>A registry that declares \<^verbatim>\<open>x\<close> and leaves it empty.\<close>

definition x_declared :: ArgvMap where
  "x_declared = set_help ''x'' ''a list'' ArgvMap_new"

text \<open>A registry that declares \<^verbatim>\<open>port\<close> and stores a value in it.\<close>

definition port_is :: "string \<Rightarrow> ArgvMap" where
  "port_is v = set_value ''port'' v (set_help ''port'' ''a number'' ArgvMap_new)"

text \<open>The new registry with a value written to \<^verbatim>\<open>ignore-unknown-settings\<close>.\<close>

definition ignoring :: "string \<Rightarrow> ArgvMap" where
  "ignoring v = set_value ius v ArgvMap_new"

text \<open>
  The entries \<^verbatim>\<open>gatherIncludes\<close> keeps: the name does not begin with a dot and ends with
  the suffix. \<open>entry_path\<close> is the path it builds for an entry.
\<close>

definition included_entry :: "string \<Rightarrow> dirent \<Rightarrow> bool" where
  "included_entry suffix ent = (take 1 (d_name ent) \<noteq> ''.'' \<and> ends_with (d_name ent) suffix)"

definition entry_path :: "string \<Rightarrow> dirent \<Rightarrow> string" where
  "entry_path directory ent = directory @ ''/'' @ d_name ent"

text \<open>The key \<^verbatim>\<open>CIStringComparePOSIX\<close> compares by: the bytes after the case fold.\<close>

definition ci_key :: "string \<Rightarrow> nat list" where
  "ci_key s = map (\<lambda>c. of_char (tolower c)) s"

text \<open>A file system with one directory, \<^verbatim>\<open>/etc/pdns/conf.d\<close>, and its entries.\<close>

definition conf_d :: "dirent list \<Rightarrow> filesys" where
  "conf_d ents = \<lparr>fs_files = (\<lambda>_. None),
                  fs_dirs = (\<lambda>d. if d = ''/etc/pdns/conf.d'' then Inr ents else Inl ''No such file or directory'')\<rparr>"

text \<open>A directory with two dot entries, one of them not a regular file.\<close>

definition dotted_dir :: "dirent list" where
  "dotted_dir = [\<lparr>d_name = ''.hidden.conf'', st_regular = False\<rparr>,
                 \<lparr>d_name = ''.swap.conf'', st_regular = True\<rparr>,
                 \<lparr>d_name = ''a.conf'', st_regular = True\<rparr>]"

text \<open>
  A file system with a top-level file that sets \<^verbatim>\<open>include-dir\<close>, and the registry after
  that file is parsed into a new one.
\<close>

definition include_fs :: filesys where
  "include_fs =
     \<lparr>fs_files = [''/etc/pdns/pdns.conf'' \<mapsto> ''include-dir=/etc/pdns/conf.d''],
      fs_dirs = (\<lambda>d. if d = ''/etc/pdns/conf.d''
                     then Inr [\<lparr>d_name = ''2-b.conf'', st_regular = True\<rparr>,
                               \<lparr>d_name = ''10-a.conf'', st_regular = True\<rparr>,
                               \<lparr>d_name = ''README'', st_regular = True\<rparr>]
                     else Inl ''No such file or directory'')\<rparr>"

definition included_top :: ArgvMap where
  "included_top =
     \<lparr>d_params = [(''ignore-unknown-settings'', []), (''include-dir'', ''/etc/pdns/conf.d'')],
      d_unknownParams = [],
      helpmap = [(''ignore-unknown-settings'', ''Configuration settings to ignore if they are unknown''),
                 (''include-dir'', ''Directory to include configuration files from'')],
      defaultmap = [],
      d_typeMap = [(''ignore-unknown-settings'', ''Parameter''), (''include-dir'', ''Parameter'')],
      d_cmds = [], d_cleared = {''include-dir''}, d_log = []\<rparr>"

text \<open>A registry that declares \<^verbatim>\<open>a\<close>, \<^verbatim>\<open>b\<close> and \<^verbatim>\<open>c\<close>, and three files.\<close>

definition abc_declared :: ArgvMap where
  "abc_declared = set_help ''c'' ''third'' (set_help ''b'' ''second'' (set_help ''a'' ''first'' ArgvMap_new))"

definition examples_fs :: filesys where
  "examples_fs =
     \<lparr>fs_files = [''a.conf'' \<mapsto> ''a=1'' @ [backslash, CHR 0x0A] @ ''2'',
                  ''b.conf'' \<mapsto> ''b=3 # comment'',
                  ''c.conf'' \<mapsto> ''c=3#notacomment''],
      fs_dirs = (\<lambda>d. Inl ''No such file or directory'')\<rparr>"

text \<open>A registry that declares \<^verbatim>\<open>include-dirs\<close>.\<close>

definition dirs_declared :: ArgvMap where
  "dirs_declared = set_help ''include-dirs'' ''several directories'' ArgvMap_new"

text \<open>
  A running registry: \<^verbatim>\<open>a\<close> has its default \<^verbatim>\<open>1\<close>, \<^verbatim>\<open>b\<close> has the default \<^verbatim>\<open>2\<close> and the
  value \<^verbatim>\<open>3\<close>. \<open>rule_line\<close> is the line that opens the help of a setting in a dump.
\<close>

definition ab_running :: ArgvMap where
  "ab_running =
     set_value ''b'' ''3''
       (setDefaults (set_value ''b'' ''2'' (set_help ''b'' ''second''
          (set_value ''a'' ''1'' (set_help ''a'' ''first'' ArgvMap_new)))))"

definition rule_line :: string where
  "rule_line = ''#################################''"













text \<open>
  A registry as declared, every setting at its default; the running registry the parser
  reaches from it with a changed setting, whose value holds a \<^verbatim>\<open>#\<close>, and a tolerated
  unknown setting; and the dump of the running registry.
\<close>

definition tolerant_declared :: ArgvMap where
  "tolerant_declared =
     setDefaults (set_value ''b'' ''2'' (set_help ''b'' ''second''
       (set_value ''a'' ''1'' (set_help ''a'' ''first'' ArgvMap_new))))"

definition tolerant_running :: ArgvMap where
  "tolerant_running =
     \<lparr>d_params = [(''a'', ''1''), (''b'', ''3#x''), (''ignore-unknown-settings'', ''foo'')],
      d_unknownParams = [(''foo'', ''1'')],
      helpmap = [(''a'', ''first''), (''b'', ''second''),
                 (''ignore-unknown-settings'', ''Configuration settings to ignore if they are unknown'')],
      defaultmap = [(''a'', ''1''), (''b'', ''2''), (''ignore-unknown-settings'', [])],
      d_typeMap = [(''a'', ''Parameter''), (''b'', ''Parameter''), (''ignore-unknown-settings'', ''Parameter'')],
      d_cmds = [], d_cleared = {''ignore-unknown-settings'', ''b''},
      d_log = [LogWarning (''Ignoring unknown setting '' @ [squote] @ ''foo'' @ [squote] @ '' as requested'')]\<rparr>"


text \<open>A file that holds one line with two \<^verbatim>\<open>#\<close>, the second after a blank.\<close>

definition later_hash_fs :: filesys where
  "later_hash_fs =
     \<lparr>fs_files = [''c.conf'' \<mapsto> ''c=3#x # real comment''],
      fs_dirs = (\<lambda>d. Inl ''No such file or directory'')\<rparr>"

section \<open>Properties\<close>

subsection \<open>Maps and strings\<close>

lemma m_find_assign: "m_find (m_assign k v m) k' = (if k' = k then Some v else m_find m k')"
  by (induction m) (auto simp: m_find_def)

lemma find_str_append_plus_eq:
  "CHR ''='' \<notin> set p \<Longrightarrow> find_str ''+='' (p @ ''+='' @ v) = Some (length p)"
proof (induction p)
  case Nil
  then show ?case by simp
next
  case (Cons a p)
  then show ?case by (cases p) auto
qed

lemma find_str_pluseq_none:
  "CHR ''='' \<notin> set p \<Longrightarrow> p = [] \<or> last p \<noteq> CHR ''+'' \<Longrightarrow> find_str ''+='' v = None
    \<Longrightarrow> find_str ''+='' (p @ ''='' @ v) = None"
proof (induction p)
  case Nil
  then show ?case by simp
next
  case (Cons a p)
  then show ?case by (cases p) (auto split: if_splits)
qed

lemma find_chr_eq:
  "CHR ''='' \<notin> set p \<Longrightarrow> find_chr CHR ''='' (p @ ''='' @ v) = Some (length p)"
  unfolding find_chr_def by (induction p) auto

lemma trim_right_id: "s \<noteq> [] \<Longrightarrow> \<not> isspace (last s) \<Longrightarrow> trim_right s = s"
  unfolding trim_right_def by (cases s rule: rev_cases) auto

lemma trim_id: "s \<noteq> [] \<Longrightarrow> \<not> isspace (hd s) \<Longrightarrow> \<not> isspace (last s) \<Longrightarrow> trim s = s"
  unfolding trim_def by (cases s) (auto simp: trim_right_id)


lemma starts_with_dashes [simp]: "starts_with ''--'' (CHR ''-'' # CHR ''-'' # s)"
  by (simp add: starts_with_def)

lemma split_arg_incremental:
  assumes "CHR ''='' \<notin> set x"
  shows "split_arg (''--'' @ x @ ''+='' @ v) = (x, v, True, False)"
proof -
  have "find_str ''+='' ((''--'' @ x) @ ''+='' @ v) = Some (length (''--'' @ x))"
    by (rule find_str_append_plus_eq) (use assms in simp)
  then show ?thesis
    by (simp add: split_arg_def substr_def substr_from_def)
qed

lemma split_arg_assign:
  assumes "CHR ''='' \<notin> set x" "x = [] \<or> last x \<noteq> CHR ''+''" "find_str ''+='' v = None"
  shows "split_arg (''--'' @ x @ ''='' @ v) = (x, v, False, False)"
proof -
  have "find_str ''+='' ((''--'' @ x) @ ''='' @ v) = None"
    by (rule find_str_pluseq_none) (use assms in auto)
  moreover have "find_chr CHR ''='' ((''--'' @ x) @ ''='' @ v) = Some (length (''--'' @ x))"
    by (rule find_chr_eq) (use assms in simp)
  ultimately show ?thesis
    by (simp add: split_arg_def substr_def substr_from_def)
qed

lemma warnIfDeprecated_fields [simp]:
  "d_params (warnIfDeprecated v st) = d_params st"
  "d_cleared (warnIfDeprecated v st) = d_cleared st"
  "d_unknownParams (warnIfDeprecated v st) = d_unknownParams st"
  "d_cmds (warnIfDeprecated v st) = d_cmds st"
  "helpmap (warnIfDeprecated v st) = helpmap st"
  "defaultmap (warnIfDeprecated v st) = defaultmap st"
  "d_typeMap (warnIfDeprecated v st) = d_typeMap st"
  by (simp_all add: warnIfDeprecated_def split: option.splits)


lemma warned_fields [simp]:
  "d_params (warned lax v st) = d_params st"
  "d_cleared (warned lax v st) = d_cleared st"
  "d_unknownParams (warned lax v st) = d_unknownParams st"
  "d_cmds (warned lax v st) = d_cmds st"
  "helpmap (warned lax v st) = helpmap st"
  "defaultmap (warned lax v st) = defaultmap st"
  "d_typeMap (warned lax v st) = d_typeMap st"
  by (simp_all add: warned_def)

lemma parseOne_assign_declared:
  assumes "flag_name x" "find_str ''+='' v = None" "parmIsset st x"
  shows "parseOne (''--'' @ x @ ''='' @ v) [] lax st =
           Inr ((warned lax x st)\<lparr>d_params := m_assign x (strip_leading v) (d_params st),
                                    d_cleared := insert x (d_cleared st)\<rparr>)"
proof -
  have s: "split_arg (''--'' @ x @ ''='' @ v) = (x, v, False, False)"
    by (rule split_arg_assign) (use assms in \<open>auto simp: flag_name_def\<close>)
  have t: "trim x = x" using assms(1) by (simp add: flag_name_def trim_id)
  have n: "x \<noteq> []" using assms(1) by (simp add: flag_name_def)
  show ?thesis
    using assms(3) s by (simp add: parseOne_def t n parmIsset_def warned_def)
qed

lemma parseOne_incremental_declared:
  assumes "flag_name x" "m_find (d_params st) x = Some cur"
  shows "parseOne (''--'' @ x @ ''+='' @ v) [] lax st =
           (if cur = [] then
              (if x \<notin> d_cleared st then Inl (IncrementalWithoutParent x)
               else Inr ((warned lax x st)\<lparr>d_params := m_assign x (strip_leading v) (d_params st)\<rparr>))
            else Inr ((warned lax x st)\<lparr>d_params := m_assign x (cur @ '', '' @ strip_leading v) (d_params st)\<rparr>))"
proof -
  have s: "split_arg (''--'' @ x @ ''+='' @ v) = (x, v, True, False)"
    by (rule split_arg_incremental) (use assms in \<open>auto simp: flag_name_def\<close>)
  have t: "trim x = x" using assms(1) by (simp add: flag_name_def trim_id)
  have n: "x \<noteq> []" using assms(1) by (simp add: flag_name_def)
  show ?thesis
    using assms(2) s by (simp add: parseOne_def t n parmIsset_def warned_def)
qed

subsection \<open>Incremental assignment\<close>

text \<open>
  C4: for a declared name \<open>x\<close> whose value is empty and which is not marked cleared,
  \<^verbatim>\<open>--x+=a\<close> followed by \<^verbatim>\<open>--x+=b\<close> fails on the first increment with "Incremental setting
  'x' without a parent", through \<^verbatim>\<open>parseOne\<close> and through \<^verbatim>\<open>parse\<close>; after \<^verbatim>\<open>--x=\<close> the
  same two arguments succeed and leave \<^verbatim>\<open>a, b\<close> in \<open>x\<close>. The name is one the argument
  syntax can express.
\<close>

theorem incremental_needs_parent:
  assumes "flag_name x" and "m_find (d_params st) x = Some []" and "x \<notin> d_cleared st"
  shows "parseOne (''--'' @ x @ ''+=a'') [] lax st = Inl (IncrementalWithoutParent x)
       \<and> parse_args [''--'' @ x @ ''+=a'', ''--'' @ x @ ''+=b''] lax st = Inl (IncrementalWithoutParent x)
       \<and> parse [prog, ''--'' @ x @ ''+=a'', ''--'' @ x @ ''+=b''] lax st = Inl (IncrementalWithoutParent x)
       \<and> (\<exists>st'. parse_args [''--'' @ x @ ''='', ''--'' @ x @ ''+=a'', ''--'' @ x @ ''+=b''] lax st = Inr st'
               \<and> m_find (d_params st') x = Some ''a, b'')
       \<and> (\<exists>st'. parse [prog, ''--'' @ x @ ''='', ''--'' @ x @ ''+=a'', ''--'' @ x @ ''+=b''] lax st = Inr st'
               \<and> m_find (d_params st') x = Some ''a, b'')"
proof -
  have one: "parseOne (''--'' @ x @ ''+=a'') [] lax s = Inl (IncrementalWithoutParent x)"
    if "m_find (d_params s) x = Some []" "x \<notin> d_cleared s" for s
    using parseOne_incremental_declared [OF assms(1) that(1), of "''a''" lax] that(2) by simp
  have three: "\<exists>st'. parse_args [''--'' @ x @ ''='', ''--'' @ x @ ''+=a'', ''--'' @ x @ ''+=b''] lax s = Inr st'
               \<and> m_find (d_params st') x = Some ''a, b''"
    if "m_find (d_params s) x = Some []" for s
  proof -
    define s1 where "s1 = (warned lax x s)\<lparr>d_params := m_assign x [] (d_params s),
                                    d_cleared := insert x (d_cleared s)\<rparr>"
    define s2 where "s2 = (warned lax x s1)\<lparr>d_params := m_assign x ''a'' (d_params s1)\<rparr>"
    define s3 where "s3 = (warned lax x s2)\<lparr>d_params := m_assign x ''a, b'' (d_params s2)\<rparr>"
    have p1: "parseOne (''--'' @ x @ ''='') [] lax s = Inr s1"
      using parseOne_assign_declared [OF assms(1), of "[]" s lax] that
      by (simp add: parmIsset_def s1_def strip_leading_def)
    have f1: "m_find (d_params s1) x = Some []" "x \<in> d_cleared s1"
      by (simp_all add: s1_def m_find_assign)
    have p2: "parseOne (''--'' @ x @ ''+=a'') [] lax s1 = Inr s2"
      using parseOne_incremental_declared [OF assms(1) f1(1), of "''a''" lax] f1(2)
      by (simp add: s2_def strip_leading_def)
    have f2: "m_find (d_params s2) x = Some ''a''"
      by (simp add: s2_def m_find_assign)
    have p3: "parseOne (''--'' @ x @ ''+=b'') [] lax s2 = Inr s3"
      using parseOne_incremental_declared [OF assms(1) f2, of "''b''" lax]
      by (simp add: s3_def strip_leading_def)
    have f3: "m_find (d_params s3) x = Some ''a, b''"
      by (simp add: s3_def m_find_assign)
    show ?thesis using p1 p2 p3 f3 by simp
  qed
  show ?thesis
    using one [of st] one [of "st\<lparr>d_cmds := [], d_cleared := {}\<rparr>"]
      three [of st] three [of "st\<lparr>d_cmds := [], d_cleared := {}\<rparr>"] assms(2,3)
    by (simp add: parse_def)
qed


lemma x_declared_params: "d_params x_declared = [(''ignore-unknown-settings'', []), (''x'', [])]"
  by (simp add: x_declared_def ArgvMap_new_def set_help_def set_slot_def set_value_def m_index_def ius_def)

theorem incremental_needs_parent_witness:
  "flag_name ''x'' \<and> m_find (d_params x_declared) ''x'' = Some [] \<and> ''x'' \<notin> d_cleared x_declared
   \<and> parse [''pdns_server'', ''--x+=a'', ''--x+=b''] False x_declared = Inl (IncrementalWithoutParent ''x'')
   \<and> (\<exists>st'. parse [''pdns_server'', ''--x='', ''--x+=a'', ''--x+=b''] False x_declared = Inr st'
               \<and> m_find (d_params st') ''x'' = Some ''a, b'')"
proof -
  have a: "flag_name ''x''" by (simp add: flag_name_def isspace_def)
  have b: "m_find (d_params x_declared) ''x'' = Some []" by (simp add: x_declared_params m_find_def)
  have c: "''x'' \<notin> d_cleared x_declared"
    by (simp add: x_declared_def ArgvMap_new_def set_help_def set_slot_def set_value_def)
  show ?thesis
    using incremental_needs_parent [OF a b c, of False "''pdns_server''"] a b c by simp
qed

subsection \<open>Accessors on undeclared names\<close>

lemma ArgvMap_new_params: "d_params ArgvMap_new = [(ius, [])]"
  by (simp add: ArgvMap_new_def set_help_def set_slot_def set_value_def m_index_def)

text \<open>
  C9: on a name that was never declared or assigned, \<^verbatim>\<open>isEmpty\<close> returns true (it has no
  failing branch), while \<^verbatim>\<open>operator[]\<close>, \<^verbatim>\<open>mustDo\<close> and the typed accessors
  \<^verbatim>\<open>asNum\<close>, \<^verbatim>\<open>asMode\<close>, \<^verbatim>\<open>asGid\<close>, \<^verbatim>\<open>asUid\<close> and \<^verbatim>\<open>asDouble\<close> fail with
  "Undefined but needed argument".
\<close>

theorem isEmpty_undeclared:
  assumes "\<not> parmIsset st arg"
  shows "isEmpty st arg
       \<and> index_op st arg = Inl (NotFound arg)
       \<and> mustDo st arg = Inl (NotFound arg)
       \<and> asNum st arg def = Inl (NotFound arg)
       \<and> asMode st arg = Inl (NotFound arg)
       \<and> asGid getgrnam st arg = Inl (NotFound arg)
       \<and> asUid getpwnam st arg = Inl (NotFound arg)
       \<and> asDouble strtod st arg = Inl (NotFound arg)"
proof (intro conjI)
  show "isEmpty st arg" using assms by (simp add: isEmpty_def)
  show i: "index_op st arg = Inl (NotFound arg)" using assms by (simp add: index_op_def)
  show "mustDo st arg = Inl (NotFound arg)" by (simp add: mustDo_def i)
  show "asNum st arg def = Inl (NotFound arg)" using assms by (simp add: asNum_def)
  show "asMode st arg = Inl (NotFound arg)" using assms by (simp add: asMode_def)
  show "asGid getgrnam st arg = Inl (NotFound arg)" using assms by (simp add: asGid_def)
  show "asUid getpwnam st arg = Inl (NotFound arg)" using assms by (simp add: asUid_def)
  show "asDouble strtod st arg = Inl (NotFound arg)" using assms by (simp add: asDouble_def)
qed

theorem isEmpty_undeclared_witness:
  "\<not> parmIsset ArgvMap_new ''no-such-setting''
   \<and> isEmpty ArgvMap_new ''no-such-setting''
   \<and> index_op ArgvMap_new ''no-such-setting'' = Inl (NotFound ''no-such-setting'')
   \<and> asNum ArgvMap_new ''no-such-setting'' 5 = Inl (NotFound ''no-such-setting'')"
proof -
  have a: "\<not> parmIsset ArgvMap_new ''no-such-setting''"
    by (simp add: parmIsset_def m_find_def ArgvMap_new_params ius_def)
  show ?thesis using isEmpty_undeclared [OF a, of 5] a by simp
qed

subsection \<open>The integer accessor\<close>

lemma strtol_zero: "strtol ''0'' 0 = (0, 1)"
  by (simp add: strtol_def isspace_def is_digit_def digit_val_def LONG_MAX_def)

lemma strtol_abc: "strtol ''abc'' 0 = (0, 0)"
  by (simp add: strtol_def isspace_def is_digit_def digit_val_def)

text \<open>
  C7: \<^verbatim>\<open>asNum\<close> returns 0 on the stored value \<^verbatim>\<open>0\<close>; on \<^verbatim>\<open>abc\<close>, which \<^verbatim>\<open>strtol\<close>
  reads as zero with no character consumed, it fails with "is not a valid number"; on the
  empty value it returns the default of the caller; on an undeclared name it fails with
  "Undefined but needed argument" and does not return the default.
\<close>

theorem asNum_cases:
  "(m_find (d_params st) arg = Some ''0'' \<longrightarrow> asNum st arg def = Inr 0)
 \<and> (m_find (d_params st) arg = Some ''abc'' \<longrightarrow>
       strtol ''abc'' 0 = (0, 0) \<and> asNum st arg def = Inl (MalformedValue arg ''abc''))
 \<and> (m_find (d_params st) arg = Some [] \<longrightarrow> asNum st arg def = Inr def)
 \<and> (\<not> parmIsset st arg \<longrightarrow> asNum st arg def = Inl (NotFound arg))"
proof (intro conjI impI)
  assume v: "m_find (d_params st) arg = Some ''0''"
  have "c_str ''0'' = ''0''" by (simp add: c_str_def NUL_def)
  then show "asNum st arg def = Inr 0"
    using v by (simp add: asNum_def parmIsset_def strtol_zero to_int_def)
next
  assume v: "m_find (d_params st) arg = Some ''abc''"
  show "strtol ''abc'' 0 = (0, 0)" by (rule strtol_abc)
  have "c_str ''abc'' = ''abc''" by (simp add: c_str_def NUL_def)
  then show "asNum st arg def = Inl (MalformedValue arg ''abc'')"
    using v by (simp add: asNum_def parmIsset_def strtol_abc to_int_def)
next
  assume "m_find (d_params st) arg = Some []"
  then show "asNum st arg def = Inr def" by (simp add: asNum_def parmIsset_def)
next
  assume "\<not> parmIsset st arg"
  then show "asNum st arg def = Inl (NotFound arg)" by (simp add: asNum_def)
qed

lemma port_is_params: "d_params (port_is v) = [(ius, []), (''port'', v)]"
  by (simp add: port_is_def ArgvMap_new_params set_help_def set_slot_def set_value_def m_index_def ius_def)

theorem asNum_cases_witness:
  "asNum (port_is ''0'') ''port'' 53 = Inr 0
 \<and> asNum (port_is ''abc'') ''port'' 53 = Inl (MalformedValue ''port'' ''abc'')
 \<and> asNum (port_is []) ''port'' 53 = Inr 53
 \<and> asNum (port_is []) ''sport'' 53 = Inl (NotFound ''sport'')"
proof -
  have f: "m_find (d_params (port_is v)) ''port'' = Some v" for v
    by (simp add: port_is_params m_find_def ius_def)
  have n: "\<not> parmIsset (port_is []) ''sport''"
    by (simp add: parmIsset_def port_is_params m_find_def ius_def)
  show ?thesis
    using asNum_cases [of "port_is ''0''" "''port''" 53]
      asNum_cases [of "port_is ''abc''" "''port''" 53]
      asNum_cases [of "port_is []" "''port''" 53]
      asNum_cases [of "port_is []" "''sport''" 53] f n
    by simp
qed

subsection \<open>Unknown settings\<close>

lemma split_arg_cmd_empty:
  "split_arg arg = (var0, val0, inc, True) \<Longrightarrow> var0 = []"
  by (auto simp: split_arg_def Let_def split: if_splits)

text \<open>
  C5: \<^verbatim>\<open>parseOne\<close> on an argument whose name \<open>var\<close> passes the filter and is not declared.
  When \<open>var\<close> is a token of the current value of \<^verbatim>\<open>ignore-unknown-settings\<close> (split at
  comma, space, tab, newline and carriage return), the pair is stored in \<^verbatim>\<open>d_unknownParams\<close>,
  a warning is logged and the call returns; when it is not and lax mode is off, the call
  fails with "Trying to set unknown setting"; when it is not and lax mode is on, the call
  returns the registry as it was, with nothing logged.
\<close>

theorem parseOne_unknown_name:
  assumes "var = trim (fst (split_arg arg))" and "val = strip_leading (fst (snd (split_arg arg)))"
    and "var \<noteq> []" and "parseOnly = [] \<or> var = parseOnly"
    and "\<not> parmIsset st var" and "m_find (d_params st) ius = Some ignored"
  shows "(var \<in> set (stringtok ignored ignore_delims) \<longrightarrow>
            parseOne arg parseOnly lax st =
              Inr ((warned lax var st)
                \<lparr>d_unknownParams := m_assign var val (d_unknownParams st),
                 d_log := d_log (warned lax var st) @
                   [LogWarning (''Ignoring unknown setting '' @ [squote] @ var @ [squote] @ '' as requested'')]\<rparr>))
       \<and> (var \<notin> set (stringtok ignored ignore_delims) \<and> \<not> lax \<longrightarrow>
            parseOne arg parseOnly lax st = Inl (UnknownSetting var))
       \<and> (var \<notin> set (stringtok ignored ignore_delims) \<and> lax \<longrightarrow>
            parseOne arg parseOnly lax st = Inr st)"
proof -
  obtain var0 val0 inc is_cmd where s: "split_arg arg = (var0, val0, inc, is_cmd)"
    by (cases "split_arg arg") auto
  have v: "trim var0 = var" "strip_leading val0 = val" using assms(1,2) s by simp_all
  have "\<not> is_cmd"
  proof
    assume "is_cmd"
    then have "var0 = []" using s split_arg_cmd_empty [of arg var0 val0 inc] by simp
    then show False using v(1) assms(3) by (simp add: trim_def trim_right_def)
  qed
  then have c: "is_cmd = False" by simp
  have i: "m_index (d_params st) ius = (ignored, d_params st)"
    using assms(6) by (simp add: m_index_def m_find_def)
  have w: "d_params (warnIfDeprecated var st) = d_params st" by simp
  have p: "\<not> parmIsset (warnIfDeprecated var st) var" using assms(5) by (simp add: parmIsset_def)
  show ?thesis
    using assms(3,4,5) p
    by (cases lax) (auto simp add: parseOne_def s c v i warned_def Let_def)
qed


lemma ignoring_params: "d_params (ignoring v) = [(ius, v)]"
  by (simp add: ignoring_def ArgvMap_new_params set_value_def)

lemma split_foo: "split_arg ''--foo=1'' = (''foo'', ''1'', False, False)"
  using split_arg_assign [of "''foo''" "''1''"] by simp

lemma tok_foobar: "stringtok ''foo,bar'' ignore_delims = [''foo'', ''bar'']"
  by (simp add: stringtok_def ignore_delims_def)
lemma tok_bar: "stringtok ''bar'' ignore_delims = [''bar'']"
  by (simp add: stringtok_def ignore_delims_def)

theorem parseOne_unknown_name_witness:
  "m_find (d_unknownParams (projr (parseOne ''--foo=1'' [] False (ignoring ''foo,bar'')))) ''foo'' = Some ''1''
 \<and> parseOne ''--foo=1'' [] False (ignoring ''bar'') = Inl (UnknownSetting ''foo'')
 \<and> parseOne ''--foo=1'' [] True (ignoring ''bar'') = Inr (ignoring ''bar'')"
proof -
  have t: "trim ''foo'' = ''foo''" by (simp add: trim_id isspace_def)
  have sl: "strip_leading ''1'' = ''1''" by (simp add: strip_leading_def)
  have n: "\<not> parmIsset (ignoring v) ''foo''" for v
    by (simp add: parmIsset_def ignoring_params m_find_def ius_def)
  have f: "m_find (d_params (ignoring v)) ius = Some v" for v
    by (simp add: ignoring_params m_find_def)
  show ?thesis
    using parseOne_unknown_name [of "''foo''" "''--foo=1''" "''1''" "[]" "ignoring ''foo,bar''" "''foo,bar''" False]
      parseOne_unknown_name [of "''foo''" "''--foo=1''" "''1''" "[]" "ignoring ''bar''" "''bar''" False]
      parseOne_unknown_name [of "''foo''" "''--foo=1''" "''1''" "[]" "ignoring ''bar''" "''bar''" True]
      n f
    by (simp add: split_foo t sl tok_foobar tok_bar m_find_assign)
qed

subsection \<open>The include directory\<close>

lemma CIStringComparePOSIX_key: "CIStringComparePOSIX a b \<longleftrightarrow> ci_key a < ci_key b"
proof (induction a b rule: CIStringComparePOSIX.induct)
  case (1 rhs)
  then show ?case by (cases rhs) (simp_all add: ci_key_def)
next
  case (2 l lhs)
  then show ?case by (simp add: ci_key_def)
next
  case (3 l lhs r rhs)
  then show ?case by (auto simp: ci_key_def less_char_def)
qed

lemma mset_sort_insert: "mset (sort_insert lt x xs) = add_mset x (mset xs)"
  by (induction xs) auto

lemma set_sort_insert: "set (sort_insert lt x xs) = insert x (set xs)"
  by (induction xs) auto

lemma mset_std_sort_aux: "mset (foldl (\<lambda>acc x. sort_insert lt x acc) acc xs) = mset acc + mset xs"
  by (induction xs arbitrary: acc) (auto simp: mset_sort_insert)

lemma mset_std_sort: "mset (std_sort lt xs) = mset xs"
  by (simp add: std_sort_def mset_std_sort_aux)

lemma sorted_sort_insert:
  fixes f :: "'a \<Rightarrow> 'b::linorder"
  assumes "\<And>a b. lt a b \<longleftrightarrow> f a < f b"
  shows "sorted (map f xs) \<Longrightarrow> sorted (map f (sort_insert lt x xs))"
  by (induction xs) (auto simp: assms set_sort_insert)

lemma sorted_std_sort_aux:
  fixes f :: "'a \<Rightarrow> 'b::linorder"
  assumes "\<And>a b. lt a b \<longleftrightarrow> f a < f b"
  shows "sorted (map f acc) \<Longrightarrow> sorted (map f (foldl (\<lambda>acc x. sort_insert lt x acc) acc xs))"
  by (induction xs arbitrary: acc) (auto simp: sorted_sort_insert [OF assms])

lemma sorted_std_sort_ci: "sorted (map ci_key (std_sort CIStringComparePOSIX xs))"
  unfolding std_sort_def
  by (rule sorted_std_sort_aux) (auto simp: CIStringComparePOSIX_key)

lemma sorted_wrt_std_sort_ci:
  "sorted_wrt (\<lambda>a b. \<not> CIStringComparePOSIX b a) (std_sort CIStringComparePOSIX xs)"
proof -
  have "sorted_wrt (\<lambda>a b. ci_key a \<le> ci_key b) (std_sort CIStringComparePOSIX xs)"
    using sorted_std_sort_ci [of xs] by (simp add: sorted_map)
  then show ?thesis by (simp add: CIStringComparePOSIX_key not_less)
qed

lemma gather_entries_regular:
  "\<forall>e\<in>set ents. included_entry suffix e \<longrightarrow> st_regular e \<Longrightarrow>
   gather_entries directory suffix ents vec =
     Inr (vec @ map (entry_path directory) (filter (included_entry suffix) ents))"
  by (induction ents arbitrary: vec) (auto simp: included_entry_def entry_path_def)

lemma gather_entries_set:
  "gather_entries directory suffix ents vec = Inr xs \<Longrightarrow>
   set xs = set vec \<union> entry_path directory ` {e \<in> set ents. included_entry suffix e}"
  by (induction ents arbitrary: vec) (auto simp: included_entry_def entry_path_def Let_def split: if_splits)

lemma gather_entries_irregular:
  "e \<in> set ents \<Longrightarrow> included_entry suffix e \<Longrightarrow> \<not> st_regular e \<Longrightarrow>
   \<exists>msg. gather_entries directory suffix ents vec = Inl (ArgException msg)"
  by (induction ents arbitrary: vec) (auto simp: included_entry_def Let_def)

text \<open>
  C10: \<^verbatim>\<open>gatherIncludes\<close> never returns the path of an entry whose name begins with a dot,
  whatever the suffix of the name and the type of the file; it succeeds as soon as the
  other entries that end with the suffix are regular files, so a dot entry is not checked;
  and its result is the one for the directory without its dot entries.
\<close>

theorem gatherIncludes_skips_dot_entries:
  assumes "directory \<noteq> []" and "fs_dirs fs (c_str directory) = Inr ents"
  shows "(\<forall>xs. gatherIncludes fs directory suffix [] = Inr xs \<longrightarrow>
            (\<forall>e\<in>set ents. take 1 (d_name e) = ''.'' \<longrightarrow> entry_path directory e \<notin> set xs))
       \<and> ((\<forall>e\<in>set ents. take 1 (d_name e) \<noteq> ''.'' \<and> ends_with (d_name e) suffix \<longrightarrow> st_regular e) \<longrightarrow>
            (\<exists>xs. gatherIncludes fs directory suffix [] = Inr xs))
       \<and> gatherIncludes fs directory suffix [] =
           gatherIncludes (fs\<lparr>fs_dirs := (fs_dirs fs)(c_str directory :=
               Inr (filter (\<lambda>e. take 1 (d_name e) \<noteq> ''.'') ents))\<rparr>) directory suffix []"
proof (intro conjI allI impI ballI)
  fix xs e
  assume g: "gatherIncludes fs directory suffix [] = Inr xs"
    and e: "e \<in> set ents" "take 1 (d_name e) = ''.''"
  from g assms obtain vec where v: "gather_entries directory suffix ents [] = Inr vec"
    and x: "xs = std_sort CIStringComparePOSIX vec"
    by (auto simp: gatherIncludes_def split: sum.splits)
  have "set xs = set vec" using x mset_std_sort [of CIStringComparePOSIX vec] by (metis set_mset_mset)
  also have "\<dots> = entry_path directory ` {e \<in> set ents. included_entry suffix e}"
    using gather_entries_set [OF v] by simp
  finally have s: "set xs = entry_path directory ` {e \<in> set ents. included_entry suffix e}" .
  show "entry_path directory e \<notin> set xs"
  proof
    assume "entry_path directory e \<in> set xs"
    then obtain e' where "included_entry suffix e'" "entry_path directory e' = entry_path directory e"
      using s by auto
    then show False using e(2) by (simp add: entry_path_def included_entry_def)
  qed
next
  assume "\<forall>e\<in>set ents. take 1 (d_name e) \<noteq> ''.'' \<and> ends_with (d_name e) suffix \<longrightarrow> st_regular e"
  then have "\<forall>e\<in>set ents. included_entry suffix e \<longrightarrow> st_regular e"
    by (simp add: included_entry_def)
  from gather_entries_regular [OF this, of directory "[]"]
  show "\<exists>xs. gatherIncludes fs directory suffix [] = Inr xs"
    using assms by (simp add: gatherIncludes_def)
next
  have "gather_entries directory suffix es vec =
        gather_entries directory suffix (filter (\<lambda>e. take 1 (d_name e) \<noteq> ''.'') es) vec" for es vec
    by (induction es arbitrary: vec) (simp_all add: Let_def)
  then show "gatherIncludes fs directory suffix [] =
           gatherIncludes (fs\<lparr>fs_dirs := (fs_dirs fs)(c_str directory :=
               Inr (filter (\<lambda>e. take 1 (d_name e) \<noteq> ''.'') ents))\<rparr>) directory suffix []"
    using assms by (simp add: gatherIncludes_def)
qed

lemma c_str_conf_d: "c_str ''/etc/pdns/conf.d'' = ''/etc/pdns/conf.d''"
  by (simp add: c_str_def NUL_def)

theorem gatherIncludes_skips_dot_entries_witness:
  "''/etc/pdns/conf.d'' \<noteq> []
 \<and> fs_dirs (conf_d dotted_dir) (c_str ''/etc/pdns/conf.d'') = Inr dotted_dir
 \<and> gatherIncludes (conf_d dotted_dir) ''/etc/pdns/conf.d'' ''.conf'' [] = Inr [''/etc/pdns/conf.d/a.conf'']
 \<and> entry_path ''/etc/pdns/conf.d'' \<lparr>d_name = ''.hidden.conf'', st_regular = False\<rparr>
       \<notin> set [''/etc/pdns/conf.d/a.conf'']
 \<and> entry_path ''/etc/pdns/conf.d'' \<lparr>d_name = ''.swap.conf'', st_regular = True\<rparr>
       \<notin> set [''/etc/pdns/conf.d/a.conf'']"
proof -
  have d: "fs_dirs (conf_d dotted_dir) (c_str ''/etc/pdns/conf.d'') = Inr dotted_dir"
    by (simp add: conf_d_def c_str_conf_d)
  have n: "''/etc/pdns/conf.d'' \<noteq> []" by simp
  have g: "gatherIncludes (conf_d dotted_dir) ''/etc/pdns/conf.d'' ''.conf'' [] = Inr [''/etc/pdns/conf.d/a.conf'']"
    by (simp add: gatherIncludes_def conf_d_def c_str_conf_d dotted_dir_def ends_with_def std_sort_def)
  from gatherIncludes_skips_dot_entries [OF n d, of "''.conf''"] g
  have "\<forall>e\<in>set dotted_dir. take 1 (d_name e) = ''.'' \<longrightarrow>
       entry_path ''/etc/pdns/conf.d'' e \<notin> set [''/etc/pdns/conf.d/a.conf'']"
    by blast
  then have "entry_path ''/etc/pdns/conf.d'' \<lparr>d_name = ''.hidden.conf'', st_regular = False\<rparr>
       \<notin> set [''/etc/pdns/conf.d/a.conf'']"
    and "entry_path ''/etc/pdns/conf.d'' \<lparr>d_name = ''.swap.conf'', st_regular = True\<rparr>
       \<notin> set [''/etc/pdns/conf.d/a.conf'']"
    by (simp_all add: dotted_dir_def)
  with d n g show ?thesis by blast
qed

lemma CIStringComparePOSIX_prefix: "CIStringComparePOSIX (p @ a) (p @ b) = CIStringComparePOSIX a b"
  by (induction p) auto

lemma ten_before_two: "CIStringComparePOSIX ''10-a.conf'' ''2-b.conf''"
  by (simp add: tolower_def)

text \<open>
  C2, amended: when the include directory can be opened and each of its entries whose name
  does not begin with a dot and ends with \<^verbatim>\<open>.conf\<close> (the bytes compared, case-sensitive) is
  a regular file, the files parsed after a top-level file are the paths of exactly these
  entries, in an order in which no path is smaller than an earlier one under the ASCII
  case-folding comparison of strings; \<^verbatim>\<open>10-a.conf\<close> is smaller than \<^verbatim>\<open>2-b.conf\<close>.
\<close>

theorem include_dir_expansion:
  assumes "directory \<noteq> []" and "fs_dirs fs (c_str directory) = Inr ents"
    and "\<forall>e\<in>set ents. included_entry ''.conf'' e \<longrightarrow> st_regular e"
    and "file_one fs fname lax st = Inr (True, st2)"
    and "m_find (d_params st2) include_dir = Some directory"
  shows "(\<exists>xs. gatherIncludes fs directory ''.conf'' [] = Inr xs
            \<and> mset xs = mset (map (entry_path directory) (filter (included_entry ''.conf'') ents))
            \<and> sorted_wrt (\<lambda>a b. \<not> CIStringComparePOSIX b a) xs
            \<and> file' fs fname lax False st =
                (case file_includes fs lax xs st2 of Inl e \<Rightarrow> Inl e | Inr st4 \<Rightarrow> Inr (True, st4)))
       \<and> CIStringComparePOSIX (directory @ ''/10-a.conf'') (directory @ ''/2-b.conf'')"
proof -
  let ?vec = "map (entry_path directory) (filter (included_entry ''.conf'') ents)"
  let ?xs = "std_sort CIStringComparePOSIX ?vec"
  have g: "gatherIncludes fs directory ''.conf'' [] = Inr ?xs"
    using assms(1,2) gather_entries_regular [OF assms(3), of directory "[]"]
    by (simp add: gatherIncludes_def)
  have i: "m_index (d_params st2) include_dir = (directory, d_params st2)"
    using assms(5) by (simp add: m_index_def m_find_def)
  have f: "file' fs fname lax False st =
             (case file_includes fs lax ?xs st2 of Inl e \<Rightarrow> Inl e | Inr st4 \<Rightarrow> Inr (True, st4))"
    using assms(1) by (simp add: file'_def assms(4) i g)
  have c: "CIStringComparePOSIX (directory @ ''/10-a.conf'') (directory @ ''/2-b.conf'')"
    using CIStringComparePOSIX_prefix [of "directory @ ''/''" "''10-a.conf''" "''2-b.conf''"] ten_before_two
    by simp
  show ?thesis
    using g f c mset_std_sort [of CIStringComparePOSIX ?vec] sorted_wrt_std_sort_ci [of ?vec]
    by blast
qed

text \<open>
  C2 as stated fails: a regular file \<^verbatim>\<open>B.CONF\<close>, whose name ends with \<^verbatim>\<open>.conf\<close> when case
  is ignored, is not among the files gathered.
\<close>

theorem include_dir_uppercase_counterexample:
  "st_regular \<lparr>d_name = ''B.CONF'', st_regular = True\<rparr>
 \<and> ends_with (map tolower ''B.CONF'') ''.conf''
 \<and> gatherIncludes (conf_d [\<lparr>d_name = ''B.CONF'', st_regular = True\<rparr>]) ''/etc/pdns/conf.d'' ''.conf'' [] = Inr []"
  by (simp add: gatherIncludes_def conf_d_def c_str_conf_d ends_with_def std_sort_def tolower_def)

lemma ArgvMap_new_eq:
  "ArgvMap_new = \<lparr>d_params = [(ius, [])], d_unknownParams = [],
      helpmap = [(ius, ''Configuration settings to ignore if they are unknown'')], defaultmap = [],
      d_typeMap = [(ius, ''Parameter'')], d_cmds = [], d_cleared = {}, d_log = []\<rparr>"
  by (simp add: ArgvMap_new_def set_help_def set_slot_def set_value_def m_index_def)

lemma file_one_include_fs:
  "file_one include_fs ''/etc/pdns/pdns.conf'' False ArgvMap_new = Inr (True, included_top)"
proof -
  have s: "split_arg ''--include-dir=/etc/pdns/conf.d'' = (''include-dir'', ''/etc/pdns/conf.d'', False, False)"
    using split_arg_assign [of "''include-dir''" "''/etc/pdns/conf.d''"] by simp
  have t: "trim ''include-dir'' = ''include-dir''" by (simp add: trim_id isspace_def)
  have l: "getlines ''include-dir=/etc/pdns/conf.d'' = [''include-dir=/etc/pdns/conf.d'']"
    by (simp add: getlines_def)
  have r: "trim_right ''include-dir=/etc/pdns/conf.d'' = ''include-dir=/etc/pdns/conf.d''"
    by (simp add: trim_right_id isspace_def)
  show ?thesis
    by (simp add: file_one_def parseFile_def include_fs_def l r strip_comment_def find_chr_def
        strip_leading_spaces_def substr_from_def backslash_def parseOne_def s t
        ArgvMap_new_eq ius_def include_dir_def parmIsset_def m_find_def set_help_def set_slot_def
        m_index_def warnIfDeprecated_def deprecateList_def strip_leading_def included_top_def Let_def)
qed

theorem include_dir_expansion_witness:
  "file' include_fs ''/etc/pdns/pdns.conf'' False False ArgvMap_new =
     (case file_includes include_fs False [''/etc/pdns/conf.d/10-a.conf'', ''/etc/pdns/conf.d/2-b.conf'']
             included_top of
        Inl e \<Rightarrow> Inl e | Inr st4 \<Rightarrow> Inr (True, st4))"
proof -
  let ?ents = "[\<lparr>d_name = ''2-b.conf'', st_regular = True\<rparr>,
                \<lparr>d_name = ''10-a.conf'', st_regular = True\<rparr>,
                \<lparr>d_name = ''README'', st_regular = True\<rparr>]"
  have n: "''/etc/pdns/conf.d'' \<noteq> []" by simp
  have d: "fs_dirs include_fs (c_str ''/etc/pdns/conf.d'') = Inr ?ents"
    by (simp add: include_fs_def c_str_conf_d)
  have r: "\<forall>e\<in>set ?ents. included_entry ''.conf'' e \<longrightarrow> st_regular e" by simp
  have m: "m_find (d_params included_top) include_dir = Some ''/etc/pdns/conf.d''"
    by (simp add: included_top_def m_find_def include_dir_def)
  have g: "gatherIncludes include_fs ''/etc/pdns/conf.d'' ''.conf'' [] =
             Inr [''/etc/pdns/conf.d/10-a.conf'', ''/etc/pdns/conf.d/2-b.conf'']"
    by (simp add: gatherIncludes_def include_fs_def c_str_conf_d ends_with_def std_sort_def tolower_def)
  from include_dir_expansion [OF n d r file_one_include_fs m] g
  show ?thesis by auto
qed

subsection \<open>The lines of a file\<close>

lemma parseFile_lines_continued:
  assumes "trim_right p \<noteq> []" and "last (trim_right p) = backslash"
  shows "parseFile_lines (p # rest) line arg lax st =
         parseFile_lines rest (line @ butlast (trim_right p)) arg lax st"
  using assms by (simp add: substr_def butlast_conv_take Let_def)


lemma assign_value:
  assumes "flag_name x" "find_str ''+='' v = None" "parmIsset st x" "strip_leading v = v"
  shows "\<exists>st'. parseOne (''--'' @ x @ ''='' @ v) [] lax st = Inr st' \<and> m_find (d_params st') x = Some v"
  using parseOne_assign_declared [OF assms(1,2,3), of lax] assms(4) by (simp add: m_find_assign)

lemma parseFile_single:
  assumes "fs_files fs fname = Some content"
    and "parseFile_lines (getlines content) [] arg lax st =
           (case parseOne a arg lax st of Inl e \<Rightarrow> Inl e | Inr st' \<Rightarrow> Inr st')"
    and "parseOne a arg lax st = Inr st'"
  shows "parseFile fs fname arg lax st = Inr (True, st')"
  using assms by (simp add: parseFile_def)

text \<open>
  C6, amended: \<^verbatim>\<open>parseFile\<close> joins a physical line whose right-trimmed form ends in a backslash,
  the backslash removed, with the line that follows; it cuts the logical line at its first
  \<^verbatim>\<open>#\<close> when that is the first character or follows white space, and keeps the line whole
  when its first \<^verbatim>\<open>#\<close> follows another character. So, for declared names, the lines
  \<^verbatim>\<open>a=1\<close> with a backslash and \<^verbatim>\<open>2\<close> give \<open>a\<close> the value \<^verbatim>\<open>12\<close>, the line \<^verbatim>\<open>b=3 # comment\<close> gives \<open>b\<close>
  the value \<^verbatim>\<open>3\<close>, and the line \<^verbatim>\<open>c=3#notacomment\<close> gives \<open>c\<close> the value
  \<^verbatim>\<open>3#notacomment\<close>.
\<close>

theorem parseFile_line_processing:
  "(trim_right p \<noteq> [] \<and> last (trim_right p) = backslash \<longrightarrow>
      parseFile_lines (p # q # rest) line arg lax st =
      parseFile_lines (q # rest) (line @ butlast (trim_right p)) arg lax st)
 \<and> (find_chr CHR ''#'' l = Some pos \<and> (pos = 0 \<or> isspace (l ! (pos - 1))) \<longrightarrow> strip_comment l = take pos l)
 \<and> (find_chr CHR ''#'' l = Some pos \<and> pos \<noteq> 0 \<and> \<not> isspace (l ! (pos - 1)) \<longrightarrow> strip_comment l = l)
 \<and> (fs_files fs fname = Some (''a=1'' @ [backslash, CHR 0x0A] @ ''2'') \<and> parmIsset st ''a'' \<longrightarrow>
      (\<exists>st'. parseFile fs fname [] lax st = Inr (True, st') \<and> m_find (d_params st') ''a'' = Some ''12''))
 \<and> (fs_files fs fname = Some ''b=3 # comment'' \<and> parmIsset st ''b'' \<longrightarrow>
      (\<exists>st'. parseFile fs fname [] lax st = Inr (True, st') \<and> m_find (d_params st') ''b'' = Some ''3''))
 \<and> (fs_files fs fname = Some ''c=3#notacomment'' \<and> parmIsset st ''c'' \<longrightarrow>
      (\<exists>st'. parseFile fs fname [] lax st = Inr (True, st')
            \<and> m_find (d_params st') ''c'' = Some ''3#notacomment''))"
proof (intro conjI impI)
  assume "trim_right p \<noteq> [] \<and> last (trim_right p) = backslash"
  then show "parseFile_lines (p # q # rest) line arg lax st =
      parseFile_lines (q # rest) (line @ butlast (trim_right p)) arg lax st"
    using parseFile_lines_continued [of p "q # rest" line arg lax st] by blast
next
  assume "find_chr CHR ''#'' l = Some pos \<and> (pos = 0 \<or> isspace (l ! (pos - 1)))"
  then show "strip_comment l = take pos l" by (auto simp: strip_comment_def substr_def)
next
  assume "find_chr CHR ''#'' l = Some pos \<and> pos \<noteq> 0 \<and> \<not> isspace (l ! (pos - 1))"
  then show "strip_comment l = l" by (simp add: strip_comment_def)
next
  assume a: "fs_files fs fname = Some (''a=1'' @ [backslash, CHR 0x0A] @ ''2'') \<and> parmIsset st ''a''"
  then have f: "fs_files fs fname = Some [CHR ''a'', CHR ''='', CHR ''1'', CHR 0x5C, CHR 0x0A, CHR ''2'']"
    by (simp add: backslash_def)
  have t1: "trim_right [CHR ''a'', CHR ''='', CHR ''1'', CHR 0x5C] = [CHR ''a'', CHR ''='', CHR ''1'', CHR 0x5C]"
    by (simp add: trim_right_def isspace_def)
  have t2: "trim_right ''2'' = ''2''" by (simp add: trim_right_def isspace_def)
  have l: "strip_leading_spaces (trim_right (strip_comment ''a=12'')) = ''a=12''"
    by (simp add: strip_comment_def find_chr_def trim_right_def isspace_def strip_leading_spaces_def substr_from_def)
  have p: "parseFile_lines (getlines [CHR ''a'', CHR ''='', CHR ''1'', CHR 0x5C, CHR 0x0A, CHR ''2'']) [] [] lax st =
        (case parseOne ''--a=12'' [] lax st of Inl e \<Rightarrow> Inl e | Inr st' \<Rightarrow> Inr st')"
    by (simp add: getlines_def Let_def t1 t2 l backslash_def substr_def split: sum.splits)
  obtain st' where s: "parseOne ''--a=12'' [] lax st = Inr st'" "m_find (d_params st') ''a'' = Some ''12''"
    using assign_value [of "''a''" "''12''" st lax] a
    by (auto simp add: flag_name_def isspace_def strip_leading_def)
  show "\<exists>st'. parseFile fs fname [] lax st = Inr (True, st') \<and> m_find (d_params st') ''a'' = Some ''12''"
    using parseFile_single [OF f p s(1)] s(2) by blast
next
  assume a: "fs_files fs fname = Some ''b=3 # comment'' \<and> parmIsset st ''b''"
  then have f: "fs_files fs fname = Some ''b=3 # comment''" by simp
  have t: "trim_right ''b=3 # comment'' = ''b=3 # comment''" by (simp add: trim_right_def isspace_def)
  have l: "strip_leading_spaces (trim_right (strip_comment ''b=3 # comment'')) = ''b=3''"
    by (simp add: strip_comment_def find_chr_def trim_right_def isspace_def strip_leading_spaces_def
        substr_from_def substr_def)
  have p: "parseFile_lines (getlines ''b=3 # comment'') [] [] lax st =
        (case parseOne ''--b=3'' [] lax st of Inl e \<Rightarrow> Inl e | Inr st' \<Rightarrow> Inr st')"
    by (simp add: getlines_def Let_def t l backslash_def split: sum.splits)
  obtain st' where s: "parseOne ''--b=3'' [] lax st = Inr st'" "m_find (d_params st') ''b'' = Some ''3''"
    using assign_value [of "''b''" "''3''" st lax] a
    by (auto simp add: flag_name_def isspace_def strip_leading_def)
  show "\<exists>st'. parseFile fs fname [] lax st = Inr (True, st') \<and> m_find (d_params st') ''b'' = Some ''3''"
    using parseFile_single [OF f p s(1)] s(2) by blast
next
  assume a: "fs_files fs fname = Some ''c=3#notacomment'' \<and> parmIsset st ''c''"
  then have f: "fs_files fs fname = Some ''c=3#notacomment''" by simp
  have t: "trim_right ''c=3#notacomment'' = ''c=3#notacomment''" by (simp add: trim_right_def isspace_def)
  have l: "strip_leading_spaces (trim_right (strip_comment ''c=3#notacomment'')) = ''c=3#notacomment''"
    by (simp add: strip_comment_def find_chr_def trim_right_def isspace_def strip_leading_spaces_def
        substr_from_def substr_def)
  have p: "parseFile_lines (getlines ''c=3#notacomment'') [] [] lax st =
        (case parseOne ''--c=3#notacomment'' [] lax st of Inl e \<Rightarrow> Inl e | Inr st' \<Rightarrow> Inr st')"
    by (simp add: getlines_def Let_def t l backslash_def split: sum.splits)
  obtain st' where s: "parseOne ''--c=3#notacomment'' [] lax st = Inr st'"
      "m_find (d_params st') ''c'' = Some ''3#notacomment''"
    using assign_value [of "''c''" "''3#notacomment''" st lax] a
    by (auto simp add: flag_name_def isspace_def strip_leading_def)
  show "\<exists>st'. parseFile fs fname [] lax st = Inr (True, st')
       \<and> m_find (d_params st') ''c'' = Some ''3#notacomment''"
    using parseFile_single [OF f p s(1)] s(2) by blast
qed

lemma abc_declared_params:
  "d_params abc_declared = [(''a'', []), (''b'', []), (''c'', []), (''ignore-unknown-settings'', [])]"
  by (simp add: abc_declared_def ArgvMap_new_params set_help_def set_slot_def m_index_def ius_def)

theorem parseFile_line_processing_witness:
  "strip_comment ''b=3 # comment'' = ''b=3 ''
 \<and> strip_comment ''c=3#notacomment'' = ''c=3#notacomment''
 \<and> parseFile_lines [''a=1'' @ [backslash], ''2''] [] [] False abc_declared =
     parseFile_lines [''2''] ''a=1'' [] False abc_declared
 \<and> (\<exists>st'. parseFile examples_fs ''a.conf'' [] False abc_declared = Inr (True, st')
          \<and> m_find (d_params st') ''a'' = Some ''12'')
 \<and> (\<exists>st'. parseFile examples_fs ''b.conf'' [] False abc_declared = Inr (True, st')
          \<and> m_find (d_params st') ''b'' = Some ''3'')
 \<and> (\<exists>st'. parseFile examples_fs ''c.conf'' [] False abc_declared = Inr (True, st')
          \<and> m_find (d_params st') ''c'' = Some ''3#notacomment'')"
proof -
  have d: "parmIsset abc_declared ''a''" "parmIsset abc_declared ''b''" "parmIsset abc_declared ''c''"
    by (simp_all add: parmIsset_def abc_declared_params m_find_def)
  have f: "fs_files examples_fs ''a.conf'' = Some (''a=1'' @ [backslash, CHR 0x0A] @ ''2'')"
    "fs_files examples_fs ''b.conf'' = Some ''b=3 # comment''"
    "fs_files examples_fs ''c.conf'' = Some ''c=3#notacomment''"
    by (simp_all add: examples_fs_def)
  have h: "find_chr CHR ''#'' ''b=3 # comment'' = Some 4" "isspace (''b=3 # comment'' ! (4 - 1))"
    "find_chr CHR ''#'' ''c=3#notacomment'' = Some 3" "\<not> isspace (''c=3#notacomment'' ! (3 - 1))"
    by (simp_all add: find_chr_def isspace_def)
  have t: "trim_right (''a=1'' @ [backslash]) = ''a=1'' @ [backslash]"
    by (simp add: trim_right_def isspace_def backslash_def)
  note w = parseFile_line_processing [where lax = False and st = abc_declared and arg = "[]"
      and line = "[]" and rest = "[]" and q = "''2''" and p = "''a=1'' @ [backslash]"]
  have 1: "strip_comment ''b=3 # comment'' = ''b=3 ''"
    using w [of "''b=3 # comment''" 4 examples_fs "''a.conf''"] h by simp
  have 2: "strip_comment ''c=3#notacomment'' = ''c=3#notacomment''"
    using w [of "''c=3#notacomment''" 3 examples_fs "''a.conf''"] h by simp
  have 3: "parseFile_lines [''a=1'' @ [backslash], ''2''] [] [] False abc_declared =
     parseFile_lines [''2''] ''a=1'' [] False abc_declared"
    using w [of "[]" 0 examples_fs "''a.conf''"] by (simp only: t) simp
  have 4: "\<exists>st'. parseFile examples_fs ''a.conf'' [] False abc_declared = Inr (True, st')
          \<and> m_find (d_params st') ''a'' = Some ''12''"
    using w [of "[]" 0 examples_fs "''a.conf''"] f(1) d(1) by blast
  have 5: "\<exists>st'. parseFile examples_fs ''b.conf'' [] False abc_declared = Inr (True, st')
          \<and> m_find (d_params st') ''b'' = Some ''3''"
    using w [of "[]" 0 examples_fs "''b.conf''"] f(2) d(2) by blast
  have 6: "\<exists>st'. parseFile examples_fs ''c.conf'' [] False abc_declared = Inr (True, st')
          \<and> m_find (d_params st') ''c'' = Some ''3#notacomment''"
    using w [of "[]" 0 examples_fs "''c.conf''"] f(3) d(3) by blast
  show ?thesis using 1 2 3 4 5 6 by blast
qed

text \<open>
  C6 as stated fails: the line \<^verbatim>\<open>c=3#x # real comment\<close> has a \<^verbatim>\<open>#\<close> that follows a blank, and
  it is not cut there. Its first \<^verbatim>\<open>#\<close> follows \<^verbatim>\<open>3\<close>, the only one \<^verbatim>\<open>parseFile\<close> examines, so
  \<open>c\<close> receives the whole of \<^verbatim>\<open>3#x # real comment\<close>.
\<close>

theorem parseFile_later_hash_counterexample:
  "''c=3#x # real comment'' ! 6 = CHR ''#''
 \<and> isspace (''c=3#x # real comment'' ! 5)
 \<and> fs_files later_hash_fs ''c.conf'' = Some ''c=3#x # real comment''
 \<and> parmIsset abc_declared ''c''
 \<and> parseFile later_hash_fs ''c.conf'' [] False abc_declared =
      Inr (True, abc_declared\<lparr>d_params := [(''a'', []), (''b'', []), (''c'', ''3#x # real comment''),
                                              (''ignore-unknown-settings'', [])],
                                 d_cleared := {''c''}\<rparr>)"
proof (intro conjI)
  show "''c=3#x # real comment'' ! 6 = CHR ''#''" by simp
  show "isspace (''c=3#x # real comment'' ! 5)" by (simp add: isspace_def)
  show f: "fs_files later_hash_fs ''c.conf'' = Some ''c=3#x # real comment''"
    by (simp add: later_hash_fs_def)
  show "parmIsset abc_declared ''c''" by (simp add: parmIsset_def abc_declared_params m_find_def)
  have g: "getlines ''c=3#x # real comment'' = [''c=3#x # real comment'']" by (simp add: getlines_def)
  have t: "trim_right ''c=3#x # real comment'' = ''c=3#x # real comment''"
    by (simp add: trim_right_def isspace_def)
  have l: "strip_leading_spaces (trim_right (strip_comment ''c=3#x # real comment'')) = ''c=3#x # real comment''"
    by (simp add: strip_comment_def find_chr_def trim_right_def isspace_def strip_leading_spaces_def
        substr_from_def substr_def)
  have p: "parseFile_lines (getlines ''c=3#x # real comment'') [] [] False abc_declared =
        (case parseOne ''--c=3#x # real comment'' [] False abc_declared of
           Inl e \<Rightarrow> Inl e | Inr st' \<Rightarrow> Inr st')"
    by (simp add: g Let_def t l backslash_def split: sum.splits)
  have s: "split_arg ''--c=3#x # real comment'' = (''c'', ''3#x # real comment'', False, False)"
    using split_arg_assign [of "''c''" "''3#x # real comment''"] by simp
  have tc: "trim ''c'' = ''c''" by (simp add: trim_id isspace_def)
  have cl: "d_cleared abc_declared = {}"
    by (simp add: abc_declared_def ArgvMap_new_eq set_help_def set_slot_def)
  have o: "parseOne ''--c=3#x # real comment'' [] False abc_declared =
      Inr (abc_declared\<lparr>d_params := [(''a'', []), (''b'', []), (''c'', ''3#x # real comment''),
                                       (''ignore-unknown-settings'', [])],
                          d_cleared := {''c''}\<rparr>)"
    by (simp add: parseOne_def s tc parmIsset_def m_find_def abc_declared_params cl warnIfDeprecated_def
        deprecateList_def strip_leading_def Let_def)
  show "parseFile later_hash_fs ''c.conf'' [] False abc_declared =
      Inr (True, abc_declared\<lparr>d_params := [(''a'', []), (''b'', []), (''c'', ''3#x # real comment''),
                                              (''ignore-unknown-settings'', [])],
                                 d_cleared := {''c''}\<rparr>)"
    by (rule parseFile_single [OF f p o])
qed

subsection \<open>The pre-parse of one flag\<close>

lemma dirs_declared_eq:
  "dirs_declared = \<lparr>d_params = [(''ignore-unknown-settings'', []), (''include-dirs'', [])], d_unknownParams = [],
      helpmap = [(''ignore-unknown-settings'', ''Configuration settings to ignore if they are unknown''),
                 (''include-dirs'', ''several directories'')], defaultmap = [],
      d_typeMap = [(''ignore-unknown-settings'', ''Parameter''), (''include-dirs'', ''Parameter'')],
      d_cmds = [], d_cleared = {}, d_log = []\<rparr>"
  by (simp add: dirs_declared_def ArgvMap_new_eq set_help_def set_slot_def m_index_def ius_def)

lemma split_include_dirs: "split_arg ''--include-dirs=x'' = (''include-dirs'', ''x'', False, False)"
  using split_arg_assign [of "''include-dirs''" "''x''"] by simp

lemma trim_include_dirs: "trim ''include-dirs'' = ''include-dirs''"
  by (simp add: trim_id isspace_def)

text \<open>
  C3 does not hold of the code: \<^verbatim>\<open>preParse\<close> selects the arguments that begin with
  \<^verbatim>\<open>--include-dir\<close> and hands each to \<^verbatim>\<open>parseOne\<close> without a filter. The argument
  \<^verbatim>\<open>--include-dirs=x\<close> is selected; it assigns \<^verbatim>\<open>include-dirs\<close> where that name is declared,
  and raises "Trying to set unknown setting" where it is not.
\<close>

theorem preParse_prefix_match:
  "starts_with (''--'' @ ''include-dir'') ''--include-dirs=x''
 \<and> preParse [''pdns_server'', ''--include-dirs=x''] ''include-dir'' dirs_declared =
      Inr (dirs_declared\<lparr>d_params := [(''ignore-unknown-settings'', []), (''include-dirs'', ''x'')],
                         d_cleared := {''include-dirs''}\<rparr>)
 \<and> preParse [''pdns_server'', ''--include-dirs=x''] ''include-dir'' ArgvMap_new =
      Inl (UnknownSetting ''include-dirs'')"
proof (intro conjI)
  show s: "starts_with (''--'' @ ''include-dir'') ''--include-dirs=x''"
    by (simp add: starts_with_def)
  show "preParse [''pdns_server'', ''--include-dirs=x''] ''include-dir'' dirs_declared =
      Inr (dirs_declared\<lparr>d_params := [(''ignore-unknown-settings'', []), (''include-dirs'', ''x'')],
                         d_cleared := {''include-dirs''}\<rparr>)"
    using s
    by (simp add: preParse_def parseOne_default_parseOnly_def parseOne_default_lax_def parseOne_def
        split_include_dirs trim_include_dirs dirs_declared_eq parmIsset_def m_find_def
        warnIfDeprecated_def deprecateList_def strip_leading_def Let_def)
  show "preParse [''pdns_server'', ''--include-dirs=x''] ''include-dir'' ArgvMap_new =
      Inl (UnknownSetting ''include-dirs'')"
    using s
    by (simp add: preParse_def parseOne_default_parseOnly_def parseOne_default_lax_def parseOne_def
        split_include_dirs trim_include_dirs ArgvMap_new_eq ius_def parmIsset_def m_find_def m_index_def
        warnIfDeprecated_def deprecateList_def strip_leading_def Let_def stringtok_def ignore_delims_def)
qed

subsection \<open>The dump of a running registry\<close>

lemma ab_running_eq:
  "ab_running =
     \<lparr>d_params = [(''a'', ''1''), (''b'', ''3''), (''ignore-unknown-settings'', [])],
      d_unknownParams = [],
      helpmap = [(''a'', ''first''), (''b'', ''second''),
                 (''ignore-unknown-settings'', ''Configuration settings to ignore if they are unknown'')],
      defaultmap = [(''a'', ''1''), (''b'', ''2''), (''ignore-unknown-settings'', [])],
      d_typeMap = [(''a'', ''Parameter''), (''b'', ''Parameter''), (''ignore-unknown-settings'', ''Parameter'')],
      d_cmds = [], d_cleared = {}, d_log = []\<rparr>"
  by (simp add: ab_running_def ArgvMap_new_eq set_help_def set_slot_def set_value_def setDefaults_def
      m_index_def m_insert_def m_count_def ius_def)

text \<open>
  C1 does not hold of the code, which has the two modes the other way round: with
  \<^verbatim>\<open>running\<close> and without \<^verbatim>\<open>full\<close> the dump holds the changed setting \<^verbatim>\<open>b\<close> only, and with
  \<^verbatim>\<open>running\<close> and \<^verbatim>\<open>full\<close> it holds every setting with its help, the ones at their default
  behind \<^verbatim>\<open># \<close>.
\<close>

theorem configstring_full_renders_all:
  "configstring now True False ab_running =
     Inr (''# Autogenerated configuration file based on running instance ('' @ now @ '')''
            @ [CHR 0x0A, CHR 0x0A]
            @ ''b=3'' @ [CHR 0x0A],
          ab_running)
 \<and> configstring now True True ab_running =
     Inr (''# Autogenerated configuration file based on running instance ('' @ now @ '')''
            @ [CHR 0x0A, CHR 0x0A]
            @ rule_line @ [CHR 0x0A]
            @ ''# ignore-unknown-settings'' @ [CHR 0x09]
            @ ''Configuration settings to ignore if they are unknown'' @ [CHR 0x0A]
            @ ''#'' @ [CHR 0x0A]
            @ ''# ignore-unknown-settings='' @ [CHR 0x0A, CHR 0x0A]
            @ rule_line @ [CHR 0x0A]
            @ ''# a'' @ [CHR 0x09] @ ''first'' @ [CHR 0x0A]
            @ ''#'' @ [CHR 0x0A]
            @ ''# a=1'' @ [CHR 0x0A, CHR 0x0A]
            @ rule_line @ [CHR 0x0A]
            @ ''# b'' @ [CHR 0x09] @ ''second'' @ [CHR 0x0A]
            @ ''#'' @ [CHR 0x0A]
            @ ''b=3'' @ [CHR 0x0A, CHR 0x0A],
          ab_running)"
  by (simp add: configstring_def ab_running_eq m_index_def m_count_def ius_def formatOne_def
      configstring_unknown_def rule_line_def Let_def)

subsection \<open>Reading a dump back\<close>





























lemma tolerant_declared_eq:
  "tolerant_declared =
     \<lparr>d_params = [(''a'', ''1''), (''b'', ''2''), (''ignore-unknown-settings'', [])],
      d_unknownParams = [],
      helpmap = [(''a'', ''first''), (''b'', ''second''),
                 (''ignore-unknown-settings'', ''Configuration settings to ignore if they are unknown'')],
      defaultmap = [(''a'', ''1''), (''b'', ''2''), (''ignore-unknown-settings'', [])],
      d_typeMap = [(''a'', ''Parameter''), (''b'', ''Parameter''), (''ignore-unknown-settings'', ''Parameter'')],
      d_cmds = [], d_cleared = {}, d_log = []\<rparr>"
  by (simp add: tolerant_declared_def ArgvMap_new_eq set_help_def set_slot_def set_value_def setDefaults_def
      m_index_def m_insert_def m_count_def ius_def)



subsection \<open>Further facts\<close>

text \<open>The running registry of the round trip is one the parser reaches from the declared one.\<close>

lemma tolerant_running_reached:
  "parse [''pdns_server'', ''--ignore-unknown-settings=foo'', ''--b=3#x'', ''--foo=1''] False
     tolerant_declared = Inr tolerant_running"
proof -
  have s: "split_arg ''--ignore-unknown-settings=foo'' = (''ignore-unknown-settings'', ''foo'', False, False)"
    "split_arg ''--b=3#x'' = (''b'', ''3#x'', False, False)"
    "split_arg ''--foo=1'' = (''foo'', ''1'', False, False)"
    using split_arg_assign [of "''ignore-unknown-settings''" "''foo''"]
      split_arg_assign [of "''b''" "''3#x''"] split_arg_assign [of "''foo''" "''1''"]
    by simp_all
  have t: "trim ''ignore-unknown-settings'' = ''ignore-unknown-settings''" "trim ''b'' = ''b''"
    "trim ''foo'' = ''foo''"
    by (simp_all add: trim_id isspace_def)
  have k: "stringtok ''foo'' ignore_delims = [''foo'']"
    by (simp add: stringtok_def ignore_delims_def)
  show ?thesis
    by (simp add: parse_def parseOne_def s t k tolerant_declared_eq
        m_index_def ius_def parmIsset_def m_find_def
        warnIfDeprecated_def deprecateList_def strip_leading_def tolerant_running_def Let_def
        insert_commute)
qed

text \<open>
  Only the first \<^verbatim>\<open>#\<close> of a logical line is examined: when it follows another character
  the line is kept whole, a later \<^verbatim>\<open>#\<close> after white space included.
\<close>

lemma strip_comment_first_hash_only:
  "find_chr CHR ''#'' ''d=1#x # y'' = Some 3
 \<and> strip_comment ''d=1#x # y'' = ''d=1#x # y''
 \<and> strip_comment ''d=1 #x # y'' = ''d=1 ''"
  by (simp add: strip_comment_def find_chr_def isspace_def substr_def)

lemma m_find_index_keeps: "m_find m k \<noteq> None \<Longrightarrow> m_find (snd (m_index m j)) k \<noteq> None"
  by (auto simp: m_index_def m_find_assign simp flip: m_find_def split: option.splits)

text \<open>
  A declared name stays declared: \<^verbatim>\<open>parseOne\<close> removes no key of \<^verbatim>\<open>d_params\<close>, so
  \<^verbatim>\<open>ignore-unknown-settings\<close>, which the constructor declares, is declared in every state
  the parser reaches.
\<close>

lemma parseOne_keeps_declared:
  assumes "parseOne arg parseOnly lax st = Inr st'" and "parmIsset st k"
  shows "parmIsset st' k"
proof -
  obtain var0 val0 inc is_cmd where s: "split_arg arg = (var0, val0, inc, is_cmd)"
    by (cases "split_arg arg") auto
  obtain ig pm where i: "m_index (d_params st) ius = (ig, pm)" by (cases "m_index (d_params st) ius")
  have pm: "m_find pm k \<noteq> None"
    using m_find_index_keeps [of "d_params st" k ius] assms(2) i by (simp add: parmIsset_def)
  show ?thesis
    using assms pm
    by (auto simp: parseOne_def s i Let_def parmIsset_def m_find_assign split: if_splits)
qed

end
